theory Spec2Isabelle
  imports Main
begin

section \<open>Go values shared by both packages\<close>

text \<open>
  A Go function that may panic returns an \<open>outcome\<close>: \<open>Panic\<close> for a nil-pointer
  dereference, \<open>Return v\<close> for a normal return of \<open>v\<close>. A Go result pair
  \<open>(*T, error)\<close> is a pair of options, \<open>None\<close> being \<open>nil\<close>, so that a return with both
  components set is a value of the model too.
\<close>

datatype 'a outcome = Panic | Return 'a

text \<open>\<open>errors.ResponseError\<close> of \<open>pkg/errors\<close>, with the four fields \<open>Call\<close> writes.\<close>

record ResponseError =
  URL :: string
  StatusCode :: int
  ErrorMessage :: string
  Description :: string

text \<open>
  A Go \<open>error\<close> value: a \<open>ResponseError\<close>, or any other error, kept by its message
  (\<open>errors.New\<close>, transport and decoding failures).
\<close>

datatype error = ErrorString string | ResponseErr ResponseError

text \<open>\<open>http.Request\<close> and \<open>http.Response\<close>, as far as the two files read and write them.\<close>

record Request =
  req_Method :: string
  req_URL :: string
  req_Header :: "(string \<times> string) list"
  req_Body :: "string option"

record Response =
  resp_StatusCode :: int
  resp_Body :: string

text \<open>
  \<open>DoRequestFunc\<close> of \<open>common.go\<close>: a request in, a response or an error out. The
  network is an effect, so the function also takes and returns the state \<open>'w\<close> of the
  world (servers, clock).
\<close>

type_synonym 'w DoRequestFunc = "Request \<Rightarrow> 'w \<Rightarrow> (error + Response) \<times> 'w"

section \<open>pkg/auth/oidc/common.go\<close>

subsection \<open>Tokens, options and the sources of golang.org/x/oauth2\<close>

text \<open>
  \<open>auth.Token\<close> and \<open>oauth2.Token\<close>, each with the four fields \<open>NewClient\<close> and
  \<open>Client.Token\<close> copy. A \<open>time.Time\<close> is a point on the integer time line, 0 being the
  zero time of a freshly declared \<open>oauth2.Token\<close>.
\<close>

record Token =
  AccessToken :: string
  RefreshToken :: string
  ExpiresIn :: int
  TokenType :: string

record oauth2_Token =
  oauth2_AccessToken :: string
  oauth2_RefreshToken :: string
  oauth2_Expiry :: int
  oauth2_TokenType :: string

text \<open>\<open>auth.Options\<close>: the fields \<open>common.go\<close> and \<open>NewClientWithAuth\<close> use.\<close>

record Options =
  IssuerURL :: string
  ClientID :: string
  ClientSecret :: string
  SSLDisabled :: bool
  Timeout :: int
  TokenBasicAuth :: bool
  AuthorizationEndpoint :: string
  TokenEndpoint :: string

text \<open>\<open>oauth2.Config\<close> (with its \<open>Endpoint\<close> flattened) and \<open>clientcredentials.Config\<close>.\<close>

record oauth2_Config =
  oc_ClientID :: string
  oc_ClientSecret :: string
  oc_AuthURL :: string
  oc_TokenURL :: string

record clientcredentials_Config =
  cc_ClientID :: string
  cc_ClientSecret :: string
  cc_TokenURL :: string

text \<open>
  The \<open>oauth2.TokenSource\<close> values \<open>common.go\<close> builds, by the library call that
  builds them:
  \<^item> \<open>ReuseTokenSource t cfg\<close> is \<open>oauth2.ReuseTokenSource(&t, cfg.TokenSource(ctx))\<close> for a
    \<open>clientcredentials.Config\<close>: new tokens come from the client-credentials grant;
  \<^item> \<open>Config_TokenSource cfg t\<close> is \<open>cfg.TokenSource(ctx, &t)\<close> for an \<open>oauth2.Config\<close>:
    new tokens come from the refresh-token grant.
  In both, \<open>t\<close> is the token the source is created with.
\<close>

datatype TokenSource =
    ReuseTokenSource oauth2_Token clientcredentials_Config
  | Config_TokenSource oauth2_Config oauth2_Token

fun is_client_credentials :: "TokenSource \<Rightarrow> bool" where
  "is_client_credentials (ReuseTokenSource t cfg) = True"
| "is_client_credentials (Config_TokenSource cfg t) = False"

fun is_refresh :: "TokenSource \<Rightarrow> bool" where
  "is_refresh (ReuseTokenSource t cfg) = False"
| "is_refresh (Config_TokenSource cfg t) = True"

text \<open>The token a source is created with: its cached token before the first call.\<close>

fun initial_token :: "TokenSource \<Rightarrow> oauth2_Token" where
  "initial_token (ReuseTokenSource t cfg) = t"
| "initial_token (Config_TokenSource cfg t) = t"

text \<open>
  The \<open>*http.Client\<close> of \<open>NewClient\<close>: \<open>oauth2.NewClient(ctx, tokenSource)\<close>, whose
  transport takes its tokens from \<open>tokenSource\<close> and sends through the client
  \<open>util.BuildHTTPClient(options.SSLDisabled)\<close> stored in \<open>ctx\<close>, with the timeout set
  on it.
\<close>

record http_Client =
  hc_Source :: TokenSource
  hc_SSLDisabled :: bool
  hc_BaseTimeout :: int
  hc_Timeout :: int

record Client =
  tokenSource :: TokenSource
  httpClient :: http_Client

subsection \<open>NewClient\<close>

text \<open>Lines 48 to 54: \<open>var tt oauth2.Token\<close>, filled from \<open>token\<close> when it is not nil.\<close>

definition zero_oauth2_Token :: oauth2_Token where
  "zero_oauth2_Token =
     \<lparr>oauth2_AccessToken = [], oauth2_RefreshToken = [], oauth2_Expiry = 0,
      oauth2_TokenType = []\<rparr>"

definition NewClient_tt :: "Token option \<Rightarrow> oauth2_Token" where
  "NewClient_tt token =
     (case token of
        None \<Rightarrow> zero_oauth2_Token
      | Some tk \<Rightarrow>
          zero_oauth2_Token
            \<lparr>oauth2_AccessToken := AccessToken tk,
             oauth2_RefreshToken := RefreshToken tk,
             oauth2_Expiry := ExpiresIn tk,
             oauth2_TokenType := TokenType tk\<rparr>)"

definition refreshTokenSource :: "Options \<Rightarrow> oauth2_Token \<Rightarrow> TokenSource" where
  "refreshTokenSource options token =
     (let oauthConfig =
            \<lparr>oc_ClientID = ClientID options,
             oc_ClientSecret = ClientSecret options,
             oc_AuthURL = AuthorizationEndpoint options,
             oc_TokenURL = TokenEndpoint options\<rparr>
      in Config_TokenSource oauthConfig token)"

definition clientCredentialsTokenSource :: "Options \<Rightarrow> oauth2_Token \<Rightarrow> TokenSource" where
  "clientCredentialsTokenSource options token =
     (let oauthConfig =
            \<lparr>cc_ClientID = ClientID options,
             cc_ClientSecret = ClientSecret options,
             cc_TokenURL = TokenEndpoint options\<rparr>
      in ReuseTokenSource token oauthConfig)"

text \<open>
  \<open>NewClient\<close>. Its one global effect, \<open>oauth2.RegisterBrokenAuthHeaderProvider\<close>, is
  \<open>NewClient_registers\<close>, on the list of registered providers.
\<close>

definition NewClient_registers :: "Options \<Rightarrow> string list \<Rightarrow> string list" where
  "NewClient_registers options providers =
     (if \<not> TokenBasicAuth options then IssuerURL options # providers else providers)"

definition NewClient :: "Options \<Rightarrow> Token option \<Rightarrow> Client" where
  "NewClient options token =
     (let tt = NewClient_tt token;
          src = (if token = None \<or> oauth2_RefreshToken tt = []
                 then clientCredentialsTokenSource options tt
                 else refreshTokenSource options tt)
      in \<lparr>tokenSource = src,
          httpClient =
            \<lparr>hc_Source = src, hc_SSLDisabled = SSLDisabled options,
             hc_BaseTimeout = Timeout options, hc_Timeout = Timeout options\<rparr>\<rparr>)"

subsection \<open>Client.Do and Client.Token\<close>

text \<open>
  What golang.org/x/oauth2 does behind \<open>TokenSource.Token()\<close> and behind the
  \<open>*http.Client\<close> of \<open>oauth2.NewClient\<close> is outside this repository. Its rules are
  written out below as the library has them; what the network and the clock do enters as
  parameters:
  \<^item> \<open>timeNow\<close>: the clock, in seconds on the time line of \<open>oauth2_Expiry\<close>;
  \<open>retrieveToken\<close>: one exchange with the token endpoint, for the grant given;
  \<^item> \<open>RoundTrip\<close>: the base transport of the client built by \<open>util.BuildHTTPClient\<close>;
  \<open>url_Error\<close>: the \<open>*url.Error\<close> that \<open>http.Client.Do\<close> makes of a transport's error;
  \<open>token_Type\<close>: \<open>(*oauth2.Token).Type\<close>.
\<close>

datatype grant =
    ClientCredentialsGrant clientcredentials_Config
  | RefreshTokenGrant oauth2_Config string

fun is_refresh_grant :: "grant \<Rightarrow> bool" where
  "is_refresh_grant (ClientCredentialsGrant cfg) = False"
| "is_refresh_grant (RefreshTokenGrant cfg rt) = True"

record 'w oauth2 =
  timeNow :: "'w \<Rightarrow> int"
  retrieveToken :: "grant \<Rightarrow> 'w \<Rightarrow> (error + oauth2_Token) \<times> 'w"
  RoundTrip :: "http_Client \<Rightarrow> 'w DoRequestFunc"
  url_Error :: "Request \<Rightarrow> error \<Rightarrow> error"
  token_Type :: "oauth2_Token \<Rightarrow> string"

text \<open>
  \<open>(*oauth2.Token).Valid\<close>: the token has an access token and has not expired. A token
  with the zero expiry never expires; any other expires \<open>expiryDelta\<close>, 10 seconds,
  before its expiry.
\<close>

definition expiryDelta :: int where
  "expiryDelta = 10"

definition expired :: "'w oauth2 \<Rightarrow> oauth2_Token \<Rightarrow> 'w \<Rightarrow> bool" where
  "expired lib t w =
     (if oauth2_Expiry t = 0 then False else oauth2_Expiry t - expiryDelta < timeNow lib w)"

definition Valid :: "'w oauth2 \<Rightarrow> oauth2_Token \<Rightarrow> 'w \<Rightarrow> bool" where
  "Valid lib t w = (oauth2_AccessToken t \<noteq> [] \<and> \<not> expired lib t w)"

text \<open>
  Following the spec's words (section 3): a Token is fresh when now < expiry, and stale
  otherwise.
\<close>

definition spec_fresh :: "'w oauth2 \<Rightarrow> oauth2_Token \<Rightarrow> 'w \<Rightarrow> bool" where
  "spec_fresh lib t w = (timeNow lib w < oauth2_Expiry t)"

text \<open>
  The inner source of a reusing source, asked for a new token. The client-credentials
  source makes one client-credentials exchange. The refresher of \<open>oauth2.Config\<close> holds
  the refresh token of the token last cached (at first the seed's); without one it fails
  with no exchange, otherwise it makes one refresh-token exchange. The result is the
  token or error, and the exchanges attempted.
\<close>

fun TokenSource_new ::
  "'w oauth2 \<Rightarrow> TokenSource \<Rightarrow> oauth2_Token \<Rightarrow> 'w
     \<Rightarrow> (error + oauth2_Token) \<times> grant list \<times> 'w" where
  "TokenSource_new lib (ReuseTokenSource t cfg) cached w =
     (case retrieveToken lib (ClientCredentialsGrant cfg) w of
        (r, w') \<Rightarrow> (r, [ClientCredentialsGrant cfg], w'))"
| "TokenSource_new lib (Config_TokenSource cfg t) cached w =
     (if oauth2_RefreshToken cached = []
      then (Inl (ErrorString ''oauth2: token expired and refresh token is not set''), [], w)
      else
        (case retrieveToken lib (RefreshTokenGrant cfg (oauth2_RefreshToken cached)) w of
           (r, w') \<Rightarrow> (r, [RefreshTokenGrant cfg (oauth2_RefreshToken cached)], w')))"

text \<open>
  \<open>TokenSource.Token()\<close> on a source whose cached token is \<open>cached\<close> (at first
  \<open>initial_token\<close>): the cached token while it is valid, otherwise a new token from the
  inner source, which replaces the cached one. The result is the returned token or error,
  the cached token after the call, the exchanges attempted, and the world after the call.
\<close>

definition TokenSource_Token ::
  "'w oauth2 \<Rightarrow> TokenSource \<Rightarrow> oauth2_Token \<Rightarrow> 'w
     \<Rightarrow> (error + oauth2_Token) \<times> oauth2_Token \<times> grant list \<times> 'w" where
  "TokenSource_Token lib src cached w =
     (if Valid lib cached w then (Inr cached, cached, [], w)
      else
        (case TokenSource_new lib src cached w of
           (Inl err, gs, w') \<Rightarrow> (Inl err, cached, gs, w')
         | (Inr t, gs, w') \<Rightarrow> (Inr t, t, gs, w')))"

text \<open>
  \<open>Client.Token\<close> (lines 108 to 119), on the cached token of \<open>c.tokenSource\<close>.
\<close>

definition Client_Token ::
  "'w oauth2 \<Rightarrow> Client \<Rightarrow> oauth2_Token \<Rightarrow> 'w
     \<Rightarrow> (Token option \<times> error option) \<times> oauth2_Token \<times> grant list \<times> 'w" where
  "Client_Token lib c cached w =
     (case TokenSource_Token lib (tokenSource c) cached w of
        (Inl err, cached', gs, w') \<Rightarrow> ((None, Some err), cached', gs, w')
      | (Inr token, cached', gs, w') \<Rightarrow>
          ((Some \<lparr>AccessToken = oauth2_AccessToken token,
                  RefreshToken = oauth2_RefreshToken token,
                  ExpiresIn = oauth2_Expiry token,
                  TokenType = oauth2_TokenType token\<rparr>, None), cached', gs, w'))"

text \<open>
  A run of \<open>Client.Token\<close> calls, one after another on the same client, the world moving
  (time passing) by \<open>tick\<close> before each call. Each call is recorded with its result and
  the exchanges it attempted.
\<close>

fun Client_Token_calls ::
  "'w oauth2 \<Rightarrow> Client \<Rightarrow> ('w \<Rightarrow> 'w) list \<Rightarrow> oauth2_Token \<Rightarrow> 'w
     \<Rightarrow> ((Token option \<times> error option) \<times> grant list) list" where
  "Client_Token_calls lib c [] cached w = []"
| "Client_Token_calls lib c (tick # ticks) cached w =
     (case Client_Token lib c cached (tick w) of
        (r, cached', gs, w') \<Rightarrow> (r, gs) # Client_Token_calls lib c ticks cached' w')"

text \<open>The token \<open>t\<close> is valid at every call of such a run.\<close>

fun stays_valid :: "'w oauth2 \<Rightarrow> oauth2_Token \<Rightarrow> ('w \<Rightarrow> 'w) list \<Rightarrow> 'w \<Rightarrow> bool" where
  "stays_valid lib t [] w = True"
| "stays_valid lib t (tick # ticks) w =
     (Valid lib t (tick w) \<and> stays_valid lib t ticks (tick w))"

text \<open>
  \<open>Client.Do\<close> (lines 103 to 105) hands the request to \<open>c.httpClient\<close>; what that
  \<open>*http.Client\<close> does with it is the argument \<open>http_Do\<close>.
\<close>

definition Client_Do ::
  "(http_Client \<Rightarrow> Request \<Rightarrow> 'f) \<Rightarrow> Client \<Rightarrow> Request \<Rightarrow> 'f" where
  "Client_Do http_Do c req = http_Do (httpClient c) req"

text \<open>
  \<open>Do\<close> of the \<open>*http.Client\<close> that \<open>oauth2.NewClient\<close> builds: its transport asks its
  source for a token; an error of the source ends the call, wrapped by \<open>http.Client.Do\<close>;
  otherwise the request goes to the base transport with the token in its
  \<open>Authorization\<close> header. The source of the transport is the very source of
  \<open>c.tokenSource\<close>, so both work on the same cached token.
\<close>

definition setAuthHeader :: "'w oauth2 \<Rightarrow> oauth2_Token \<Rightarrow> Request \<Rightarrow> Request" where
  "setAuthHeader lib token req =
     req\<lparr>req_Header :=
           (''Authorization'', token_Type lib token @ '' '' @ oauth2_AccessToken token)
           # filter (\<lambda>(k, v). k \<noteq> ''Authorization'') (req_Header req)\<rparr>"

definition oauth2_Client_Do ::
  "'w oauth2 \<Rightarrow> http_Client \<Rightarrow> Request \<Rightarrow> oauth2_Token \<Rightarrow> 'w
     \<Rightarrow> (error + Response) \<times> oauth2_Token \<times> grant list \<times> 'w" where
  "oauth2_Client_Do lib hc req cached w =
     (case TokenSource_Token lib (hc_Source hc) cached w of
        (Inl err, cached', gs, w') \<Rightarrow> (Inl (url_Error lib req err), cached', gs, w')
      | (Inr token, cached', gs, w') \<Rightarrow>
          (case RoundTrip lib hc (setAuthHeader lib token req) w' of
             (r, w'') \<Rightarrow> (r, cached', gs, w'')))"

text \<open>
  A lifetime of the client: calls of its two methods in any order, the world moving by
  \<open>tick\<close> before each. A method has the pointer receiver \<open>c\<close>; neither assigns a field
  of \<open>c\<close>, so the client after a call is \<open>c\<close>. The lifetime ends with its record of
  results and exchanges, and the client as it is then.
\<close>

datatype client_call = Token_call | Do_call Request

datatype call_result =
    Token_result "Token option \<times> error option"
  | Do_result "error + Response"

definition Client_call ::
  "'w oauth2 \<Rightarrow> Client \<Rightarrow> client_call \<Rightarrow> oauth2_Token \<Rightarrow> 'w
     \<Rightarrow> call_result \<times> Client \<times> oauth2_Token \<times> grant list \<times> 'w" where
  "Client_call lib c cl cached w =
     (case cl of
        Token_call \<Rightarrow>
          (case Client_Token lib c cached w of
             (r, cached', gs, w') \<Rightarrow> (Token_result r, c, cached', gs, w'))
      | Do_call req \<Rightarrow>
          (case Client_Do (oauth2_Client_Do lib) c req cached w of
             (r, cached', gs, w') \<Rightarrow> (Do_result r, c, cached', gs, w')))"

fun Client_calls ::
  "'w oauth2 \<Rightarrow> Client \<Rightarrow> (('w \<Rightarrow> 'w) \<times> client_call) list \<Rightarrow> oauth2_Token \<Rightarrow> 'w
     \<Rightarrow> (call_result \<times> grant list) list \<times> Client" where
  "Client_calls lib c [] cached w = ([], c)"
| "Client_calls lib c ((tick, cl) # rest) cached w =
     (case Client_call lib c cl cached (tick w) of
        (r, c', cached', gs, w') \<Rightarrow>
          (case Client_calls lib c' rest cached' w' of
             (rs, c'') \<Rightarrow> ((r, gs) # rs, c'')))"

subsection \<open>fetchOpenidConfiguration\<close>

text \<open>
  \<open>openIDConfiguration\<close> is declared outside \<open>common.go\<close>; the record has the two
  endpoints the discovery document must hold. \<open>http.NewRequest\<close> fails on a method or
  URL it cannot parse: \<open>request_error\<close> says when, and the request is built here.
  \<open>httputil.UnmarshalResponse(response, &v)\<close> decodes the body into \<open>v\<close>: a function
  from the response and the old \<open>v\<close> to the new \<open>v\<close> and an error or nil.
\<close>

record openIDConfiguration =
  conf_AuthorizationEndpoint :: string
  conf_TokenEndpoint :: string

type_synonym 'a UnmarshalResponse = "Response \<Rightarrow> 'a \<Rightarrow> 'a \<times> error option"

definition NewRequest ::
  "(string \<Rightarrow> string \<Rightarrow> error option) \<Rightarrow> string \<Rightarrow> string \<Rightarrow> string option
     \<Rightarrow> error + Request" where
  "NewRequest request_error meth url body =
     (case request_error meth url of
        Some err \<Rightarrow> Inl err
      | None \<Rightarrow>
          Inr \<lparr>req_Method = meth, req_URL = url, req_Header = [], req_Body = body\<rparr>)"

definition fetchOpenidConfiguration ::
  "(string \<Rightarrow> string \<Rightarrow> error option) \<Rightarrow> openIDConfiguration option UnmarshalResponse
     \<Rightarrow> string \<Rightarrow> 'w DoRequestFunc \<Rightarrow> 'w
     \<Rightarrow> (openIDConfiguration option \<times> error option) \<times> 'w" where
  "fetchOpenidConfiguration request_error unmarshal issuerURL readConfigurationFunc w =
     (case NewRequest request_error ''GET''
             (issuerURL @ ''/.well-known/openid-configuration'') None of
        Inl err \<Rightarrow> ((None, Some err), w)
      | Inr req \<Rightarrow>
          (case readConfigurationFunc req w of
             (Inl err, w') \<Rightarrow> ((None, Some err), w')
           | (Inr response, w') \<Rightarrow>
               if resp_StatusCode response \<noteq> 200
               then ((None, Some (ErrorString ''unexpected status code'')), w')
               else
                 (case unmarshal response None of
                    (configuration, Some err) \<Rightarrow> ((None, Some err), w')
                  | (configuration, None) \<Rightarrow> ((configuration, None), w'))))"

text \<open>The request \<open>fetchOpenidConfiguration\<close> sends for an issuer.\<close>

definition discovery_request :: "string \<Rightarrow> Request" where
  "discovery_request issuerURL =
     \<lparr>req_Method = ''GET'', req_URL = issuerURL @ ''/.well-known/openid-configuration'',
      req_Header = [], req_Body = None\<rparr>"

section \<open>pkg/smclient/client.go\<close>

subsection \<open>Data and collaborators\<close>

text \<open>
  \<open>ClientConfig\<close> and \<open>query.Parameters\<close> with the fields \<open>client.go\<close> reads, and the
  value of a decoded JSON document: what \<open>json\<close> stores in an \<open>interface{}\<close>. Only
  strings are ever inspected (\<open>.(string)\<close>).
\<close>

record ClientConfig =
  cfg_URL :: string
  cfg_ClientID :: string
  cfg_ClientSecret :: string
  cfg_SSLDisabled :: bool

record Parameters =
  FieldQuery :: "string list"
  GeneralParams :: "string list"

datatype json =
    JNull
  | JBool bool
  | JNumber int
  | JString string
  | JArray "json list"
  | JObject "(string \<times> json) list"

text \<open>
  What \<open>client.go\<close> takes from other packages:
  \<^item> \<open>NormalizeURL\<close>: \<open>httputil.NormalizeURL\<close>;
  \<^item> \<open>Encode\<close>: \<open>(*query.Parameters).Encode\<close>, a method on the pointer, which
    \<open>buildURL\<close> calls also on nil (\<open>NewClientWithAuth\<close> passes nil through \<open>GetInfo\<close>);
  \<^item> \<open>NewRequest_error\<close>: when \<open>http.NewRequest\<close> fails;
  \<^item> \<open>UnmarshalResponse_map\<close>: \<open>httputil.UnmarshalResponse\<close> into an empty
    \<open>map[string]interface{}\<close>, the decoding error or the decoded map;
  \<^item> the paths of \<open>web\<close>.
\<close>

record smclient_env =
  NormalizeURL :: "string \<Rightarrow> string"
  Encode :: "Parameters option \<Rightarrow> string"
  NewRequest_error :: "string \<Rightarrow> string \<Rightarrow> error option"
  UnmarshalResponse_map :: "Response \<Rightarrow> error + (string \<rightharpoonup> json)"
  web_InfoURL :: string
  web_PlatformsURL :: string
  web_ServiceBrokersURL :: string
  web_VisibilitiesURL :: string
  web_ServiceOfferingsURL :: string
  web_ServicePlansURL :: string

text \<open>\<open>serviceManagerClient\<close>; its \<open>httpClient\<close> is an \<open>auth.Client\<close>, used through \<open>Do\<close>.\<close>

record 'w serviceManagerClient =
  sm_config :: ClientConfig
  sm_httpClient :: "'w DoRequestFunc"

subsection \<open>Call\<close>

definition buildURL :: "smclient_env \<Rightarrow> string \<Rightarrow> Parameters option \<Rightarrow> string" where
  "buildURL env baseURL q =
     (let queryParams = Encode env q
      in if queryParams = [] then baseURL else baseURL @ ''?'' @ queryParams)"

definition fullURL ::
  "smclient_env \<Rightarrow> 'w serviceManagerClient \<Rightarrow> string \<Rightarrow> Parameters option \<Rightarrow> string" where
  "fullURL env client smpath q =
     NormalizeURL env (cfg_URL (sm_config client)) @ buildURL env smpath q"

text \<open>Lines 372 to 378: the two string fields copied from the decoded error body.\<close>

definition copy_error_fields :: "(string \<rightharpoonup> json) \<Rightarrow> ResponseError \<Rightarrow> ResponseError" where
  "copy_error_fields respContent respErr =
     (let respErr1 =
            (case respContent ''error'' of
               Some (JString errorMessage) \<Rightarrow> respErr\<lparr>ErrorMessage := errorMessage\<rparr>
             | _ \<Rightarrow> respErr)
      in (case respContent ''description'' of
            Some (JString description) \<Rightarrow> respErr1\<lparr>Description := description\<rparr>
          | _ \<Rightarrow> respErr1))"

definition Call ::
  "smclient_env \<Rightarrow> 'w serviceManagerClient \<Rightarrow> string \<Rightarrow> string \<Rightarrow> string option
     \<Rightarrow> Parameters option \<Rightarrow> 'w \<Rightarrow> (Response option \<times> error option) \<times> 'w" where
  "Call env client meth smpath body q w =
     (case NewRequest (NewRequest_error env) meth (fullURL env client smpath q) body of
        Inl err \<Rightarrow> ((None, Some err), w)
      | Inr req0 \<Rightarrow>
          (let req = req0\<lparr>req_Header :=
                       req_Header req0 @ [(''Content-Type'', ''application/json'')]\<rparr>
           in (case sm_httpClient client req w of
                 (Inl err, w') \<Rightarrow> ((None, Some err), w')
               | (Inr resp, w') \<Rightarrow>
                   if resp_StatusCode resp < 200 \<or> resp_StatusCode resp > 299
                   then
                     (let respErr =
                            \<lparr>URL = fullURL env client smpath q,
                             StatusCode = resp_StatusCode resp,
                             ErrorMessage = [], Description = []\<rparr>
                      in (case UnmarshalResponse_map env resp of
                            Inl err \<Rightarrow> ((Some resp, Some (ResponseErr respErr)), w')
                          | Inr respContent \<Rightarrow>
                              ((None,
                                Some (ResponseErr (copy_error_fields respContent respErr))),
                               w')))
                   else ((Some resp, None), w'))))"

text \<open>
  The request \<open>Call\<close> sends (lines 348 to 354), and what it is for a call to be answered:
  the request can be built and the client's transport returns the response \<open>resp\<close> for
  it, taking the world from \<open>w\<close> to \<open>w'\<close>.
\<close>

definition Call_request ::
  "smclient_env \<Rightarrow> 'w serviceManagerClient \<Rightarrow> string \<Rightarrow> string \<Rightarrow> string option
     \<Rightarrow> Parameters option \<Rightarrow> Request" where
  "Call_request env client meth smpath body q =
     \<lparr>req_Method = meth, req_URL = fullURL env client smpath q,
      req_Header = [(''Content-Type'', ''application/json'')], req_Body = body\<rparr>"

definition answered ::
  "smclient_env \<Rightarrow> 'w serviceManagerClient \<Rightarrow> string \<Rightarrow> string \<Rightarrow> string option
     \<Rightarrow> Parameters option \<Rightarrow> 'w \<Rightarrow> Response \<Rightarrow> 'w \<Rightarrow> bool" where
  "answered env client meth smpath body q w resp w' =
     (NewRequest_error env meth (fullURL env client smpath q) = None
      \<and> sm_httpClient client (Call_request env client meth smpath body q) w = (Inr resp, w'))"

subsection \<open>The operations built on Call\<close>

text \<open>\<open>errors.ResponseError{StatusCode: s}\<close>: every other field has its zero value.\<close>

definition StatusCodeError :: "int \<Rightarrow> error" where
  "StatusCodeError s =
     ResponseErr \<lparr>URL = [], StatusCode = s, ErrorMessage = [], Description = []\<rparr>"

text \<open>
  \<open>register\<close>, \<open>list\<close>, \<open>delete\<close>, \<open>update\<close> and \<open>Label\<close>. \<open>json.Marshal\<close> of the
  resource and the decoder of the result's type are arguments; \<open>result\<close> is what the
  caller's variable holds before the call, and the returned value what it holds after.
  Reading \<open>response.StatusCode\<close> of a nil response is a nil-pointer dereference.
\<close>

definition register ::
  "smclient_env \<Rightarrow> 'w serviceManagerClient \<Rightarrow> ('a \<Rightarrow> error + string)
     \<Rightarrow> 'r UnmarshalResponse \<Rightarrow> 'a \<Rightarrow> string \<Rightarrow> Parameters option \<Rightarrow> 'r \<Rightarrow> 'w
     \<Rightarrow> ('r \<times> error option) outcome \<times> 'w" where
  "register env client marshal unmarshal resource url q result w =
     (case marshal resource of
        Inl err \<Rightarrow> (Return (result, Some err), w)
      | Inr requestBody \<Rightarrow>
          (case Call env client ''POST'' url (Some requestBody) q w of
             ((response, Some err), w') \<Rightarrow> (Return (result, Some err), w')
           | ((None, None), w') \<Rightarrow> (Panic, w')
           | ((Some response, None), w') \<Rightarrow>
               if resp_StatusCode response \<noteq> 201
               then (Return (result, Some (StatusCodeError (resp_StatusCode response))), w')
               else (Return (unmarshal response result), w')))"

definition list ::
  "smclient_env \<Rightarrow> 'w serviceManagerClient \<Rightarrow> 'r UnmarshalResponse \<Rightarrow> 'r \<Rightarrow> string
     \<Rightarrow> Parameters option \<Rightarrow> 'w \<Rightarrow> ('r \<times> error option) outcome \<times> 'w" where
  "list env client unmarshal result url q w =
     (case Call env client ''GET'' url None q w of
        ((resp, Some err), w') \<Rightarrow> (Return (result, Some err), w')
      | ((None, None), w') \<Rightarrow> (Panic, w')
      | ((Some resp, None), w') \<Rightarrow>
          if resp_StatusCode resp \<noteq> 200
          then (Return (result, Some (StatusCodeError (resp_StatusCode resp))), w')
          else (Return (unmarshal resp result), w'))"

definition delete ::
  "smclient_env \<Rightarrow> 'w serviceManagerClient \<Rightarrow> string \<Rightarrow> Parameters option \<Rightarrow> 'w
     \<Rightarrow> error option outcome \<times> 'w" where
  "delete env client url q w =
     (case Call env client ''DELETE'' url None q w of
        ((resp, Some err), w') \<Rightarrow> (Return (Some err), w')
      | ((None, None), w') \<Rightarrow> (Panic, w')
      | ((Some resp, None), w') \<Rightarrow>
          if resp_StatusCode resp \<noteq> 200
          then (Return (Some (StatusCodeError (resp_StatusCode resp))), w')
          else (Return None, w'))"

definition update ::
  "smclient_env \<Rightarrow> 'w serviceManagerClient \<Rightarrow> ('a \<Rightarrow> error + string)
     \<Rightarrow> 'r UnmarshalResponse \<Rightarrow> 'a \<Rightarrow> string \<Rightarrow> string \<Rightarrow> Parameters option \<Rightarrow> 'r \<Rightarrow> 'w
     \<Rightarrow> ('r \<times> error option) outcome \<times> 'w" where
  "update env client marshal unmarshal resource url ident q result w =
     (case marshal resource of
        Inl err \<Rightarrow> (Return (result, Some err), w)
      | Inr requestBody \<Rightarrow>
          (case Call env client ''PATCH'' (url @ ''/'' @ ident) (Some requestBody) q w of
             ((resp, Some err), w') \<Rightarrow> (Return (result, Some err), w')
           | ((None, None), w') \<Rightarrow> (Panic, w')
           | ((Some resp, None), w') \<Rightarrow>
               if resp_StatusCode resp \<noteq> 200
               then (Return (result, Some (StatusCodeError (resp_StatusCode resp))), w')
               else (Return (unmarshal resp result), w')))"

definition Label ::
  "smclient_env \<Rightarrow> 'w serviceManagerClient \<Rightarrow> ('c \<Rightarrow> error + string) \<Rightarrow> string \<Rightarrow> string
     \<Rightarrow> 'c \<Rightarrow> Parameters option \<Rightarrow> 'w \<Rightarrow> error option outcome \<times> 'w" where
  "Label env client marshal url ident change q w =
     (case marshal change of
        Inl err \<Rightarrow> (Return (Some err), w)
      | Inr requestBody \<Rightarrow>
          (case Call env client ''PATCH'' (url @ ''/'' @ ident) (Some requestBody) q w of
             ((response, Some err), w') \<Rightarrow> (Return (Some err), w')
           | ((None, None), w') \<Rightarrow> (Panic, w')
           | ((Some response, None), w') \<Rightarrow>
               if resp_StatusCode response \<noteq> 200
               then (Return (Some (StatusCodeError (resp_StatusCode response))), w')
               else (Return None, w')))"

subsection \<open>GetInfo and the list operations\<close>

text \<open>
  \<open>types.Info\<close> with the field \<open>NewClientWithAuth\<close> reads; \<open>types.DefaultInfo\<close> is the
  argument \<open>DefaultInfo\<close>.
\<close>

record Info =
  TokenIssuerURL :: string

definition GetInfo ::
  "smclient_env \<Rightarrow> 'w serviceManagerClient \<Rightarrow> Info UnmarshalResponse \<Rightarrow> Info
     \<Rightarrow> Parameters option \<Rightarrow> 'w \<Rightarrow> (Info option \<times> error option) outcome \<times> 'w" where
  "GetInfo env client unmarshal DefaultInfo q w =
     (case Call env client ''GET'' (web_InfoURL env) None q w of
        ((response, Some err), w') \<Rightarrow> (Return (None, Some err), w')
      | ((None, None), w') \<Rightarrow> (Panic, w')
      | ((Some response, None), w') \<Rightarrow>
          if resp_StatusCode response \<noteq> 200
          then (Return (None, Some (StatusCodeError (resp_StatusCode response))), w')
          else
            (case unmarshal response DefaultInfo of
               (info, Some err) \<Rightarrow> (Return (None, Some err), w')
             | (info, None) \<Rightarrow> (Return (Some info, None), w')))"

text \<open>
  \<open>RegisterPlatform\<close>: \<open>newPlatform\<close> starts as a nil pointer. The platform type is
  declared outside \<open>client.go\<close> and stays a type variable.
\<close>

definition RegisterPlatform ::
  "smclient_env \<Rightarrow> 'w serviceManagerClient \<Rightarrow> ('p \<Rightarrow> error + string)
     \<Rightarrow> 'p option UnmarshalResponse \<Rightarrow> 'p \<Rightarrow> Parameters option \<Rightarrow> 'w
     \<Rightarrow> ('p option \<times> error option) outcome \<times> 'w" where
  "RegisterPlatform env client marshal unmarshal platform q w =
     (case register env client marshal unmarshal platform (web_PlatformsURL env) q None w of
        (Panic, w') \<Rightarrow> (Panic, w')
      | (Return (newPlatform, Some err), w') \<Rightarrow> (Return (None, Some err), w')
      | (Return (newPlatform, None), w') \<Rightarrow> (Return (newPlatform, None), w'))"

text \<open>
  \<open>ListBrokers\<close>, \<open>ListPlatforms\<close> and \<open>ListVisibilities\<close> return the collection and
  the error of \<open>list\<close> as they are. The empty collection (\<open>&types.Brokers{}\<close> and so on)
  is the argument \<open>none\<close>.
\<close>

definition ListBrokers ::
  "smclient_env \<Rightarrow> 'w serviceManagerClient \<Rightarrow> 'bs UnmarshalResponse \<Rightarrow> 'bs
     \<Rightarrow> Parameters option \<Rightarrow> 'w \<Rightarrow> ('bs option \<times> error option) outcome \<times> 'w" where
  "ListBrokers env client unmarshal none q w =
     (case list env client unmarshal none (web_ServiceBrokersURL env) q w of
        (Panic, w') \<Rightarrow> (Panic, w')
      | (Return (brokers, err), w') \<Rightarrow> (Return (Some brokers, err), w'))"

definition ListPlatforms ::
  "smclient_env \<Rightarrow> 'w serviceManagerClient \<Rightarrow> 'ps UnmarshalResponse \<Rightarrow> 'ps
     \<Rightarrow> Parameters option \<Rightarrow> 'w \<Rightarrow> ('ps option \<times> error option) outcome \<times> 'w" where
  "ListPlatforms env client unmarshal none q w =
     (case list env client unmarshal none (web_PlatformsURL env) q w of
        (Panic, w') \<Rightarrow> (Panic, w')
      | (Return (platforms, err), w') \<Rightarrow> (Return (Some platforms, err), w'))"

definition ListVisibilities ::
  "smclient_env \<Rightarrow> 'w serviceManagerClient \<Rightarrow> 'vs UnmarshalResponse \<Rightarrow> 'vs
     \<Rightarrow> Parameters option \<Rightarrow> 'w \<Rightarrow> ('vs option \<times> error option) outcome \<times> 'w" where
  "ListVisibilities env client unmarshal none q w =
     (case list env client unmarshal none (web_VisibilitiesURL env) q w of
        (Panic, w') \<Rightarrow> (Panic, w')
      | (Return (visibilities, err), w') \<Rightarrow> (Return (Some visibilities, err), w'))"

subsection \<open>ListOfferings\<close>

text \<open>
  The types of \<open>pkg/types\<close> that \<open>ListOfferings\<close> reads and writes, with the fields it
  names. A service plan is never looked into and stays a type variable.
\<close>

record 'plan ServiceOffering =
  ID :: string
  BrokerID :: string
  Plans :: "'plan list"
  BrokerName :: string

record 'plan ServiceOfferings =
  ServiceOfferings :: "'plan ServiceOffering list"

record 'plan ServicePlans =
  ServicePlans :: "'plan list"

record Broker =
  Name :: string

text \<open>
  The body of the loop over \<open>serviceOfferings.ServiceOfferings\<close> (lines 207 to 227), one
  offering after another: the offerings with plans and broker name filled in, or the
  first error. Each round builds its two \<open>query.Parameters\<close> from \<open>q.GeneralParams\<close>,
  which dereferences \<open>q\<close>.
\<close>

fun ListOfferings_loop ::
  "smclient_env \<Rightarrow> 'w serviceManagerClient \<Rightarrow> 'plan ServicePlans UnmarshalResponse
     \<Rightarrow> Broker UnmarshalResponse \<Rightarrow> Parameters option \<Rightarrow> 'plan ServiceOffering list \<Rightarrow> 'w
     \<Rightarrow> (error + 'plan ServiceOffering list) outcome \<times> 'w" where
  "ListOfferings_loop env client unmarshal_plans unmarshal_broker q [] w =
     (Return (Inr []), w)"
| "ListOfferings_loop env client unmarshal_plans unmarshal_broker q (so # rest) w =
     (case q of
        None \<Rightarrow> (Panic, w)
      | Some qv \<Rightarrow>
          (case list env client unmarshal_plans \<lparr>ServicePlans = []\<rparr>
                  (web_ServicePlansURL env)
                  (Some \<lparr>FieldQuery = [''service_offering_id = '' @ ID so],
                         GeneralParams = GeneralParams qv\<rparr>) w of
             (Panic, w1) \<Rightarrow> (Panic, w1)
           | (Return (plans, Some err), w1) \<Rightarrow> (Return (Inl err), w1)
           | (Return (plans, None), w1) \<Rightarrow>
               (case list env client unmarshal_broker \<lparr>Name = []\<rparr>
                       (web_ServiceBrokersURL env @ ''/'' @ BrokerID so)
                       (Some \<lparr>FieldQuery = [], GeneralParams = GeneralParams qv\<rparr>) w1 of
                  (Panic, w2) \<Rightarrow> (Panic, w2)
                | (Return (broker, Some err), w2) \<Rightarrow> (Return (Inl err), w2)
                | (Return (broker, None), w2) \<Rightarrow>
                    (case ListOfferings_loop env client unmarshal_plans unmarshal_broker
                            q rest w2 of
                       (Return (Inr rest'), w3) \<Rightarrow>
                         (Return (Inr (so\<lparr>Plans := ServicePlans plans,
                                          BrokerName := Name broker\<rparr> # rest')), w3)
                     | (other, w3) \<Rightarrow> (other, w3)))))"

definition ListOfferings ::
  "smclient_env \<Rightarrow> 'w serviceManagerClient \<Rightarrow> 'plan ServiceOfferings UnmarshalResponse
     \<Rightarrow> 'plan ServicePlans UnmarshalResponse \<Rightarrow> Broker UnmarshalResponse
     \<Rightarrow> Parameters option \<Rightarrow> 'w
     \<Rightarrow> ('plan ServiceOfferings option \<times> error option) outcome \<times> 'w" where
  "ListOfferings env client unmarshal_offerings unmarshal_plans unmarshal_broker q w =
     (case list env client unmarshal_offerings \<lparr>ServiceOfferings = []\<rparr>
             (web_ServiceOfferingsURL env) q w of
        (Panic, w') \<Rightarrow> (Panic, w')
      | (Return (serviceOfferings, Some err), w') \<Rightarrow> (Return (None, Some err), w')
      | (Return (serviceOfferings, None), w') \<Rightarrow>
          (case ListOfferings_loop env client unmarshal_plans unmarshal_broker q
                  (ServiceOfferings serviceOfferings) w' of
             (Panic, w'') \<Rightarrow> (Panic, w'')
           | (Return (Inl err), w'') \<Rightarrow> (Return (None, Some err), w'')
           | (Return (Inr filled), w'') \<Rightarrow>
               (Return (Some (serviceOfferings\<lparr>ServiceOfferings := filled\<rparr>), None), w'')))"

subsection \<open>NewClientWithAuth\<close>

text \<open>
  Modelled from the spec: \<open>oidc.NewOpenIDStrategy\<close>, which \<open>NewClientWithAuth\<close> calls, is
  not in the two source files. The spec has the provider metadata (authorization
  endpoint, token endpoint) fetched once during construction from the issuer's discovery
  document, over a transport with the options' TLS setting, and a discovery failure fatal
  to construction. So the strategy is built from \<open>fetchOpenidConfiguration\<close>, an error of
  which is returned as the error of construction; the endpoints are read from the
  configuration (a nil configuration has none to read).
\<close>

datatype OpenIDStrategy = OpenIDStrategy Options

definition NewOpenIDStrategy ::
  "(string \<Rightarrow> string \<Rightarrow> error option) \<Rightarrow> openIDConfiguration option UnmarshalResponse
     \<Rightarrow> (bool \<Rightarrow> 'w DoRequestFunc) \<Rightarrow> Options \<Rightarrow> 'w
     \<Rightarrow> (OpenIDStrategy option \<times> Options option \<times> error option) outcome \<times> 'w" where
  "NewOpenIDStrategy request_error unmarshal build options w =
     (case fetchOpenidConfiguration request_error unmarshal (IssuerURL options)
             (build (SSLDisabled options)) w of
        ((configuration, Some err), w') \<Rightarrow> (Return (None, None, Some err), w')
      | ((None, None), w') \<Rightarrow> (Panic, w')
      | ((Some configuration, None), w') \<Rightarrow>
          (let options' =
                 options\<lparr>AuthorizationEndpoint := conf_AuthorizationEndpoint configuration,
                         TokenEndpoint := conf_TokenEndpoint configuration\<rparr>
           in (Return (Some (OpenIDStrategy options'), Some options', None), w')))"

text \<open>
  What \<open>NewClientWithAuth\<close> takes from outside the two files: \<open>http.DefaultClient\<close>,
  the client of \<open>util.BuildHTTPClient\<close> for a TLS setting, \<open>auth.GetToken\<close>, what an
  \<open>*http.Client\<close> built by \<open>oidc.NewClient\<close> does with a request, the decoders of the info
  and of the discovery document, and \<open>types.DefaultInfo\<close>.
\<close>

record 'w collaborators =
  http_DefaultClient :: "'w DoRequestFunc"
  BuildHTTPClient :: "bool \<Rightarrow> 'w DoRequestFunc"
  GetToken :: "Options option \<Rightarrow> OpenIDStrategy option \<Rightarrow> 'w
                 \<Rightarrow> (Token option \<times> error option) \<times> 'w"
  http_Do :: "http_Client \<Rightarrow> 'w DoRequestFunc"
  unmarshal_Info :: "Info UnmarshalResponse"
  unmarshal_openIDConfiguration :: "openIDConfiguration option UnmarshalResponse"
  DefaultInfo :: Info

text \<open>
  \<open>NewClientWithAuth\<close>. The zero \<open>auth.Options\<close> fields are written out. The registration
  \<open>oidc.NewClient\<close> makes with the oauth2 library is \<open>NewClient_registers\<close> above.
\<close>

definition NewClientWithAuth ::
  "smclient_env \<Rightarrow> 'w collaborators \<Rightarrow> 'w DoRequestFunc option \<Rightarrow> ClientConfig \<Rightarrow> 'w
     \<Rightarrow> ('w serviceManagerClient option \<times> error option) outcome \<times> 'w" where
  "NewClientWithAuth env co httpClient0 config w =
     (let httpClient1 = (case httpClient0 of None \<Rightarrow> http_DefaultClient co | Some h \<Rightarrow> h);
          client = \<lparr>sm_config = config, sm_httpClient = httpClient1\<rparr>
      in (case GetInfo env client (unmarshal_Info co) (DefaultInfo co) None w of
            (Panic, w1) \<Rightarrow> (Panic, w1)
          | (Return (info, Some err), w1) \<Rightarrow> (Return (None, Some err), w1)
          | (Return (None, None), w1) \<Rightarrow> (Panic, w1)
          | (Return (Some info, None), w1) \<Rightarrow>
              (let authOptions =
                     \<lparr>IssuerURL = TokenIssuerURL info,
                      ClientID = cfg_ClientID config,
                      ClientSecret = cfg_ClientSecret config,
                      SSLDisabled = cfg_SSLDisabled config,
                      Timeout = 0, TokenBasicAuth = False,
                      AuthorizationEndpoint = [], TokenEndpoint = []\<rparr>
               in (case NewOpenIDStrategy (NewRequest_error env)
                          (unmarshal_openIDConfiguration co) (BuildHTTPClient co)
                          authOptions w1 of
                     (Panic, w2) \<Rightarrow> (Panic, w2)
                   | (Return (authStrategy, authOptions', Some err), w2) \<Rightarrow>
                       (Return (None, Some err), w2)
                   | (Return (authStrategy, authOptions', None), w2) \<Rightarrow>
                       (case GetToken co authOptions' authStrategy w2 of
                          ((token, Some err), w3) \<Rightarrow> (Return (None, Some err), w3)
                        | ((token, None), w3) \<Rightarrow>
                            (case authOptions' of
                               None \<Rightarrow> (Panic, w3)
                             | Some options \<Rightarrow>
                                 (let authClient = NewClient options token
                                  in (Return
                                        (Some \<lparr>sm_config = config,
                                               sm_httpClient =
                                                 Client_Do (http_Do co) authClient\<rparr>,
                                         None), w3))))))))"

section \<open>Concrete collaborators\<close>

text \<open>
  One concrete choice of every parameter, on which the theorems below are run: a clock in
  seconds as the world, a token endpoint that issues tokens for 60 seconds and rejects
  the refresh token \<open>revoked\<close>, and a server that answers every request with one fixed
  status and body and counts the requests.
\<close>

definition example_oauth2 :: "nat oauth2" where
  "example_oauth2 =
     \<lparr>timeNow = int,
      retrieveToken = (\<lambda>g now.
        (case g of
           ClientCredentialsGrant cfg \<Rightarrow>
             (Inr \<lparr>oauth2_AccessToken = ''cc-access'', oauth2_RefreshToken = [],
                   oauth2_Expiry = int now + 60, oauth2_TokenType = ''bearer''\<rparr>, now)
         | RefreshTokenGrant cfg rt \<Rightarrow>
             (if rt = ''revoked'' then (Inl (ErrorString ''invalid_grant''), now)
              else (Inr \<lparr>oauth2_AccessToken = ''fresh-access'', oauth2_RefreshToken = rt,
                         oauth2_Expiry = int now + 60, oauth2_TokenType = ''bearer''\<rparr>,
                    now)))),
      RoundTrip = (\<lambda>hc req now. (Inr \<lparr>resp_StatusCode = 200, resp_Body = ''{}''\<rparr>, now)),
      url_Error = (\<lambda>req err.
        (case err of
           ErrorString msg \<Rightarrow> ErrorString (req_Method req @ '' '' @ req_URL req @ '': '' @ msg)
         | ResponseErr e \<Rightarrow> ResponseErr e)),
      token_Type = (\<lambda>t. ''Bearer'')\<rparr>"

definition example_Options :: Options where
  "example_Options =
     \<lparr>IssuerURL = ''https://uaa.example.com'', ClientID = ''cli'', ClientSecret = ''secret'',
      SSLDisabled = False, Timeout = 10, TokenBasicAuth = True,
      AuthorizationEndpoint = ''https://uaa.example.com/oauth/authorize'',
      TokenEndpoint = ''https://uaa.example.com/oauth/token''\<rparr>"

definition example_Token :: "string \<Rightarrow> int \<Rightarrow> Token" where
  "example_Token refresh expiry =
     \<lparr>AccessToken = ''access'', RefreshToken = refresh, ExpiresIn = expiry,
      TokenType = ''bearer''\<rparr>"

definition example_Do :: "int \<Rightarrow> string \<Rightarrow> nat DoRequestFunc" where
  "example_Do status body req n = (Inr \<lparr>resp_StatusCode = status, resp_Body = body\<rparr>, Suc n)"

definition example_env :: smclient_env where
  "example_env =
     \<lparr>NormalizeURL = (\<lambda>u. if u \<noteq> [] \<and> last u = CHR ''/'' then butlast u else u),
      Encode = (\<lambda>q. case q of
                   None \<Rightarrow> []
                 | Some p \<Rightarrow> concat (map (\<lambda>f. ''fieldQuery='' @ f) (FieldQuery p))),
      NewRequest_error = (\<lambda>m u. if m = [] then Some (ErrorString ''invalid method'') else None),
      UnmarshalResponse_map = (\<lambda>r.
        if resp_Body r = ''{error:invalid_token,description:expired}''
        then Inr [''error'' \<mapsto> JString ''invalid_token'',
                  ''description'' \<mapsto> JString ''expired'']
        else if resp_Body r = ''{}'' then Inr Map.empty
        else Inl (ErrorString ''invalid character'')),
      web_InfoURL = ''/v1/info'',
      web_PlatformsURL = ''/v1/platforms'',
      web_ServiceBrokersURL = ''/v1/service_brokers'',
      web_VisibilitiesURL = ''/v1/visibilities'',
      web_ServiceOfferingsURL = ''/v1/service_offerings'',
      web_ServicePlansURL = ''/v1/service_plans''\<rparr>"

definition example_config :: ClientConfig where
  "example_config =
     \<lparr>cfg_URL = ''https://sm.example.com/'', cfg_ClientID = ''cli'',
      cfg_ClientSecret = ''secret'', cfg_SSLDisabled = False\<rparr>"

definition example_client :: "int \<Rightarrow> string \<Rightarrow> nat serviceManagerClient" where
  "example_client status body =
     \<lparr>sm_config = example_config, sm_httpClient = example_Do status body\<rparr>"

text \<open>Decoders for the examples: the body is the resource's name, or the text \<open>garbage\<close>.\<close>

definition example_marshal :: "string \<Rightarrow> error + string" where
  "example_marshal name = Inr name"

definition example_unmarshal :: "string option UnmarshalResponse" where
  "example_unmarshal resp v =
     (if resp_Body resp = ''garbage'' then (v, Some (ErrorString ''invalid character''))
      else (Some (resp_Body resp), None))"

definition example_unmarshal_offerings :: "unit ServiceOfferings UnmarshalResponse" where
  "example_unmarshal_offerings resp v =
     (\<lparr>ServiceOfferings = [\<lparr>ID = ''o1'', BrokerID = ''b1'', Plans = [], BrokerName = []\<rparr>]\<rparr>,
      None)"

definition example_collaborators :: "int \<Rightarrow> nat collaborators" where
  "example_collaborators discovery_status =
     \<lparr>http_DefaultClient = example_Do 200 ''{}'',
      BuildHTTPClient = (\<lambda>ssl. example_Do discovery_status ''{}''),
      GetToken = (\<lambda>options strategy n. ((None, None), n)),
      http_Do = (\<lambda>hc. example_Do 200 ''{}''),
      unmarshal_Info = (\<lambda>resp info. (info\<lparr>TokenIssuerURL := ''https://uaa.example.com''\<rparr>, None)),
      unmarshal_openIDConfiguration = (\<lambda>resp c.
        (Some \<lparr>conf_AuthorizationEndpoint = ''https://uaa.example.com/oauth/authorize'',
                conf_TokenEndpoint = ''https://uaa.example.com/oauth/token''\<rparr>, None)),
      DefaultInfo = \<lparr>TokenIssuerURL = []\<rparr>\<rparr>"

section \<open>The token source of a client\<close>

lemma Valid_iff:
  "Valid lib t w \<longleftrightarrow>
     oauth2_AccessToken t \<noteq> []
     \<and> (oauth2_Expiry t = 0 \<or> timeNow lib w \<le> oauth2_Expiry t - 10)"
  by (auto simp: Valid_def expired_def expiryDelta_def)

lemma Client_Token_valid:
  "Valid lib cached w \<Longrightarrow>
   Client_Token lib c cached w =
     ((Some \<lparr>AccessToken = oauth2_AccessToken cached,
             RefreshToken = oauth2_RefreshToken cached,
             ExpiresIn = oauth2_Expiry cached,
             TokenType = oauth2_TokenType cached\<rparr>, None), cached, [], w)"
  by (simp add: Client_Token_def TokenSource_Token_def)

lemma NewClient_tt_Some:
  "NewClient_tt (Some tk) =
     \<lparr>oauth2_AccessToken = AccessToken tk, oauth2_RefreshToken = RefreshToken tk,
      oauth2_Expiry = ExpiresIn tk, oauth2_TokenType = TokenType tk\<rparr>"
  by (simp add: NewClient_tt_def zero_oauth2_Token_def)

lemma NewClient_initial_token:
  "initial_token (tokenSource (NewClient options token)) = NewClient_tt token"
  by (simp add: NewClient_def Let_def clientCredentialsTokenSource_def refreshTokenSource_def)

lemma NewClient_transport_source:
  "hc_Source (httpClient (NewClient options token)) = tokenSource (NewClient options token)"
  by (simp add: NewClient_def Let_def)

lemma NewClient_client_credentials:
  "RefreshToken tk = [] \<Longrightarrow>
   tokenSource (NewClient options (Some tk)) =
     ReuseTokenSource (NewClient_tt (Some tk))
       \<lparr>cc_ClientID = ClientID options, cc_ClientSecret = ClientSecret options,
        cc_TokenURL = TokenEndpoint options\<rparr>"
  by (simp add: NewClient_def Let_def NewClient_tt_Some clientCredentialsTokenSource_def)

lemma NewClient_refresh:
  "RefreshToken tk \<noteq> [] \<Longrightarrow>
   tokenSource (NewClient options (Some tk)) =
     Config_TokenSource
       \<lparr>oc_ClientID = ClientID options, oc_ClientSecret = ClientSecret options,
        oc_AuthURL = AuthorizationEndpoint options, oc_TokenURL = TokenEndpoint options\<rparr>
       (NewClient_tt (Some tk))"
  by (simp add: NewClient_def Let_def NewClient_tt_Some refreshTokenSource_def)

lemma Client_Token_calls_valid:
  "stays_valid lib cached ticks w \<Longrightarrow>
   Client_Token_calls lib c ticks cached w =
     replicate (length ticks)
       ((Some \<lparr>AccessToken = oauth2_AccessToken cached,
               RefreshToken = oauth2_RefreshToken cached,
               ExpiresIn = oauth2_Expiry cached,
               TokenType = oauth2_TokenType cached\<rparr>, None), [])"
proof (induction ticks arbitrary: w)
  case Nil
  show ?case by simp
next
  case (Cons tick ticks)
  from Cons.prems have v: "Valid lib cached (tick w)"
    and rest: "stays_valid lib cached ticks (tick w)" by simp_all
  show ?case
    by (simp add: Client_Token_valid [OF v] Cons.IH [OF rest])
qed

lemma TokenSource_new_refresh_grants:
  "is_refresh src \<Longrightarrow> TokenSource_new lib src cached w = (r, gs, w') \<Longrightarrow>
   list_all is_refresh_grant gs"
  by (cases src) (auto split: if_splits prod.splits)

lemma TokenSource_Token_refresh_grants:
  "is_refresh src \<Longrightarrow> TokenSource_Token lib src cached w = (r, cached', gs, w') \<Longrightarrow>
   list_all is_refresh_grant gs"
  by (auto simp: TokenSource_Token_def split: if_splits prod.splits sum.splits
      dest: TokenSource_new_refresh_grants)

lemma Client_call_refresh:
  assumes "is_refresh (tokenSource c)"
    and "hc_Source (httpClient c) = tokenSource c"
    and "Client_call lib c cl cached w = (r, c', cached', gs, w')"
  shows "c' = c \<and> list_all is_refresh_grant gs"
proof -
  obtain tr cached1 gs1 w1 where
    ts: "TokenSource_Token lib (tokenSource c) cached w = (tr, cached1, gs1, w1)"
    by (metis prod_cases4)
  from TokenSource_Token_refresh_grants [OF assms(1) ts]
  have g1: "list_all is_refresh_grant gs1" .
  have "c' = c \<and> gs = gs1"
  proof (cases cl)
    case Token_call
    with assms(3) ts show ?thesis
      by (cases tr) (simp_all add: Client_call_def Client_Token_def)
  next
    case (Do_call req)
    with assms(2,3) ts show ?thesis
      by (cases tr)
        (simp_all add: Client_call_def Client_Do_def oauth2_Client_Do_def split: prod.splits)
  qed
  with g1 show ?thesis by simp
qed

lemma Client_calls_refresh:
  assumes "is_refresh (tokenSource c)" and "hc_Source (httpClient c) = tokenSource c"
  shows "snd (Client_calls lib c calls cached w) = c
     \<and> list_all (\<lambda>(r, gs). list_all is_refresh_grant gs)
         (fst (Client_calls lib c calls cached w))"
proof (induction calls arbitrary: cached w)
  case Nil
  show ?case by simp
next
  case (Cons tc calls)
  obtain tick cl where tc: "tc = (tick, cl)"
    by (cases tc)
  obtain r c' cached' gs w' where
    step: "Client_call lib c cl cached (tick w) = (r, c', cached', gs, w')"
    by (metis prod_cases5)
  from Client_call_refresh [OF assms step] have same: "c' = c"
    and gs: "list_all is_refresh_grant gs" by simp_all
  obtain rs c'' where rest: "Client_calls lib c calls cached' w' = (rs, c'')"
    by (cases "Client_calls lib c calls cached' w'")
  from Cons.IH [of cached' w'] rest have "c'' = c"
    and "list_all (\<lambda>(r, gs). list_all is_refresh_grant gs) rs" by simp_all
  then show ?case
    by (simp add: tc step same gs rest)
qed

lemma refresh_exchange_fails:
  assumes "\<not> Valid lib cached w" and "oauth2_RefreshToken cached \<noteq> []"
    and "retrieveToken lib (RefreshTokenGrant cfg (oauth2_RefreshToken cached)) w = (Inl err, w')"
  shows "TokenSource_Token lib (Config_TokenSource cfg t) cached w
           = (Inl err, cached, [RefreshTokenGrant cfg (oauth2_RefreshToken cached)], w')"
  using assms by (simp add: TokenSource_Token_def)

text \<open>
  C1. For all options and every optional seed token, \<open>NewClient\<close> builds the
  client-credentials source exactly when the seed is absent or its refresh token is the
  empty string, and otherwise the refresh-token source; the source holds, as the token
  it starts with, the four fields of the supplied token (the zero token when none is
  supplied), and the configuration made of the options; it is one of the two sources and
  never both.
\<close>

theorem NewClient_source_selection:
  "tokenSource (NewClient options token) =
     (case token of
        None \<Rightarrow>
          ReuseTokenSource
            \<lparr>oauth2_AccessToken = [], oauth2_RefreshToken = [], oauth2_Expiry = 0,
             oauth2_TokenType = []\<rparr>
            \<lparr>cc_ClientID = ClientID options, cc_ClientSecret = ClientSecret options,
             cc_TokenURL = TokenEndpoint options\<rparr>
      | Some tk \<Rightarrow>
          if RefreshToken tk = []
          then ReuseTokenSource
                 \<lparr>oauth2_AccessToken = AccessToken tk, oauth2_RefreshToken = RefreshToken tk,
                  oauth2_Expiry = ExpiresIn tk, oauth2_TokenType = TokenType tk\<rparr>
                 \<lparr>cc_ClientID = ClientID options, cc_ClientSecret = ClientSecret options,
                  cc_TokenURL = TokenEndpoint options\<rparr>
          else Config_TokenSource
                 \<lparr>oc_ClientID = ClientID options, oc_ClientSecret = ClientSecret options,
                  oc_AuthURL = AuthorizationEndpoint options,
                  oc_TokenURL = TokenEndpoint options\<rparr>
                 \<lparr>oauth2_AccessToken = AccessToken tk, oauth2_RefreshToken = RefreshToken tk,
                  oauth2_Expiry = ExpiresIn tk, oauth2_TokenType = TokenType tk\<rparr>)
   \<and> (is_client_credentials (tokenSource (NewClient options token)) \<longleftrightarrow>
      (token = None \<or> (\<exists>tk. token = Some tk \<and> RefreshToken tk = [])))
   \<and> (is_refresh (tokenSource (NewClient options token)) \<longleftrightarrow>
      (\<exists>tk. token = Some tk \<and> RefreshToken tk \<noteq> []
         \<and> initial_token (tokenSource (NewClient options token))
             = \<lparr>oauth2_AccessToken = AccessToken tk, oauth2_RefreshToken = RefreshToken tk,
                oauth2_Expiry = ExpiresIn tk, oauth2_TokenType = TokenType tk\<rparr>))
   \<and> (is_client_credentials (tokenSource (NewClient options token))
        \<noteq> is_refresh (tokenSource (NewClient options token)))"
proof (cases token)
  case None
  then show ?thesis
    by (simp add: NewClient_def Let_def clientCredentialsTokenSource_def NewClient_tt_def
        zero_oauth2_Token_def)
next
  case (Some tk)
  show ?thesis
  proof (cases "RefreshToken tk = []")
    case True
    from NewClient_client_credentials [OF True, of options] Some True show ?thesis
      by (simp add: NewClient_tt_Some)
  next
    case False
    from NewClient_refresh [OF False, of options] Some False show ?thesis
      by (simp add: NewClient_tt_Some)
  qed
qed

text \<open>
  C7, as the code has it. A client-credentials source built from a seed token (one
  without a refresh token) starts with that token as its cached token. At every call at
  which the oauth2 library finds the cached seed valid (it has an access token, and its
  expiry is the zero time or at least 10 seconds ahead) \<open>Client.Token\<close> returns the seed
  token unchanged and attempts no exchange with the token endpoint. At a call at which
  the seed is not valid, \<open>Client.Token\<close> attempts one client-credentials exchange.
\<close>

theorem seed_token_reused_while_valid:
  assumes "RefreshToken tk = []"
  shows "tokenSource (NewClient options (Some tk))
        = ReuseTokenSource
            \<lparr>oauth2_AccessToken = AccessToken tk, oauth2_RefreshToken = [],
             oauth2_Expiry = ExpiresIn tk, oauth2_TokenType = TokenType tk\<rparr>
            \<lparr>cc_ClientID = ClientID options, cc_ClientSecret = ClientSecret options,
             cc_TokenURL = TokenEndpoint options\<rparr>
    \<and> (stays_valid lib (initial_token (tokenSource (NewClient options (Some tk)))) ticks w
       \<longrightarrow> Client_Token_calls lib (NewClient options (Some tk)) ticks
            (initial_token (tokenSource (NewClient options (Some tk)))) w
          = replicate (length ticks) ((Some tk, None), []))
    \<and> (\<not> Valid lib (initial_token (tokenSource (NewClient options (Some tk)))) w
       \<longrightarrow> (\<exists>r cached' w'.
             Client_Token lib (NewClient options (Some tk))
               (initial_token (tokenSource (NewClient options (Some tk)))) w
             = (r, cached',
                [ClientCredentialsGrant
                   \<lparr>cc_ClientID = ClientID options, cc_ClientSecret = ClientSecret options,
                    cc_TokenURL = TokenEndpoint options\<rparr>], w')))"
proof -
  let ?c = "NewClient options (Some tk)"
  let ?cfg = "\<lparr>cc_ClientID = ClientID options, cc_ClientSecret = ClientSecret options,
      cc_TokenURL = TokenEndpoint options\<rparr>"
  have src: "tokenSource ?c = ReuseTokenSource (NewClient_tt (Some tk)) ?cfg"
    by (rule NewClient_client_credentials [OF assms])
  have tt: "NewClient_tt (Some tk) =
      \<lparr>oauth2_AccessToken = AccessToken tk, oauth2_RefreshToken = [],
       oauth2_Expiry = ExpiresIn tk, oauth2_TokenType = TokenType tk\<rparr>"
    using assms by (simp add: NewClient_tt_Some)
  have same: "\<lparr>AccessToken = AccessToken tk, RefreshToken = [], ExpiresIn = ExpiresIn tk,
      TokenType = TokenType tk\<rparr> = tk"
    using assms by simp
  have built: "tokenSource ?c = ReuseTokenSource
      \<lparr>oauth2_AccessToken = AccessToken tk, oauth2_RefreshToken = [],
       oauth2_Expiry = ExpiresIn tk, oauth2_TokenType = TokenType tk\<rparr> ?cfg"
    using src tt by simp
  have reused: "stays_valid lib (initial_token (tokenSource ?c)) ticks w
      \<longrightarrow> Client_Token_calls lib ?c ticks (initial_token (tokenSource ?c)) w
          = replicate (length ticks) ((Some tk, None), [])"
  proof
    assume v: "stays_valid lib (initial_token (tokenSource ?c)) ticks w"
    from Client_Token_calls_valid [OF v, of ?c]
    show "Client_Token_calls lib ?c ticks (initial_token (tokenSource ?c)) w
        = replicate (length ticks) ((Some tk, None), [])"
      by (simp add: NewClient_initial_token tt same)
  qed
  have exchanged: "\<not> Valid lib (initial_token (tokenSource ?c)) w
      \<longrightarrow> (\<exists>r cached' w'. Client_Token lib ?c (initial_token (tokenSource ?c)) w
             = (r, cached', [ClientCredentialsGrant ?cfg], w'))"
    by (auto simp: Client_Token_def TokenSource_Token_def src split: prod.splits sum.splits)
  from built reused exchanged show ?thesis by (intro conjI)
qed

theorem seed_token_reused_while_valid_witness:
  "RefreshToken (example_Token [] 100) = []
   \<and> stays_valid example_oauth2
        (initial_token (tokenSource (NewClient example_Options (Some (example_Token [] 100)))))
        [\<lambda>n. n + 10, \<lambda>n. n + 20] 0
   \<and> Client_Token_calls example_oauth2 (NewClient example_Options (Some (example_Token [] 100)))
        [\<lambda>n. n + 10, \<lambda>n. n + 20]
        (initial_token (tokenSource (NewClient example_Options (Some (example_Token [] 100))))) 0
      = replicate (length [\<lambda>n::nat. n + 10, \<lambda>n. n + 20])
          ((Some (example_Token [] 100), None), [])
   \<and> \<not> Valid example_oauth2
        (initial_token (tokenSource (NewClient example_Options (Some (example_Token [] 100)))))
        95
   \<and> (\<exists>r cached' w'.
         Client_Token example_oauth2 (NewClient example_Options (Some (example_Token [] 100)))
           (initial_token (tokenSource (NewClient example_Options (Some (example_Token [] 100)))))
           95
         = (r, cached',
            [ClientCredentialsGrant
               \<lparr>cc_ClientID = ClientID example_Options,
                cc_ClientSecret = ClientSecret example_Options,
                cc_TokenURL = TokenEndpoint example_Options\<rparr>], w'))"
proof -
  let ?seed = "initial_token (tokenSource (NewClient example_Options (Some (example_Token [] 100))))"
  have r: "RefreshToken (example_Token [] 100) = []"
    by (simp add: example_Token_def)
  have v: "stays_valid example_oauth2 ?seed [\<lambda>n. n + 10, \<lambda>n. n + 20] 0"
    by (simp add: NewClient_initial_token NewClient_tt_Some example_Token_def Valid_iff
        example_oauth2_def)
  have nv: "\<not> Valid example_oauth2 ?seed 95"
    by (simp add: NewClient_initial_token NewClient_tt_Some example_Token_def Valid_iff
        example_oauth2_def)
  note t1 = seed_token_reused_while_valid [OF r, where options = example_Options
      and lib = example_oauth2 and ticks = "[\<lambda>n. n + 10, \<lambda>n. n + 20]" and w = 0]
  note t2 = seed_token_reused_while_valid [OF r, where options = example_Options
      and lib = example_oauth2 and w = 95]
  from t1 v have c1: "Client_Token_calls example_oauth2
      (NewClient example_Options (Some (example_Token [] 100)))
      [\<lambda>n. n + 10, \<lambda>n. n + 20] ?seed 0
      = replicate (length [\<lambda>n::nat. n + 10, \<lambda>n. n + 20])
          ((Some (example_Token [] 100), None), [])"
    by blast
  from t2 nv have c2: "\<exists>r cached' w'.
      Client_Token example_oauth2 (NewClient example_Options (Some (example_Token [] 100)))
        ?seed 95
      = (r, cached',
         [ClientCredentialsGrant
            \<lparr>cc_ClientID = ClientID example_Options,
             cc_ClientSecret = ClientSecret example_Options,
             cc_TokenURL = TokenEndpoint example_Options\<rparr>], w')"
    by blast
  from r v c1 nv c2 show ?thesis by (intro conjI)
qed

text \<open>
  C7 as stated fails: a seed token that expires at time 100 is still fresh at time 95
  (now < expiry), yet \<open>Client.Token\<close> on the client-credentials source seeded with it does
  not return it: the library counts a token as expired 10 seconds before its expiry, so
  the call makes a client-credentials exchange and returns the new token.
\<close>

theorem fresh_seed_token_exchanged_counterexample:
  "spec_fresh example_oauth2
     (initial_token (tokenSource (NewClient example_Options (Some (example_Token [] 100))))) 95
   \<and> is_client_credentials (tokenSource (NewClient example_Options (Some (example_Token [] 100))))
   \<and> Client_Token example_oauth2 (NewClient example_Options (Some (example_Token [] 100)))
       (initial_token (tokenSource (NewClient example_Options (Some (example_Token [] 100)))))
       95
     = ((Some \<lparr>AccessToken = ''cc-access'', RefreshToken = [], ExpiresIn = 155,
               TokenType = ''bearer''\<rparr>, None),
        \<lparr>oauth2_AccessToken = ''cc-access'', oauth2_RefreshToken = [], oauth2_Expiry = 155,
         oauth2_TokenType = ''bearer''\<rparr>,
        [ClientCredentialsGrant
           \<lparr>cc_ClientID = ''cli'', cc_ClientSecret = ''secret'',
            cc_TokenURL = ''https://uaa.example.com/oauth/token''\<rparr>],
        95)"
proof -
  have r: "RefreshToken (example_Token [] 100) = []"
    by (simp add: example_Token_def)
  have src: "tokenSource (NewClient example_Options (Some (example_Token [] 100)))
      = ReuseTokenSource (NewClient_tt (Some (example_Token [] 100)))
          \<lparr>cc_ClientID = ''cli'', cc_ClientSecret = ''secret'',
           cc_TokenURL = ''https://uaa.example.com/oauth/token''\<rparr>"
    using NewClient_client_credentials [OF r, of example_Options]
    by (simp add: example_Options_def)
  have seed: "initial_token (tokenSource (NewClient example_Options (Some (example_Token [] 100))))
      = NewClient_tt (Some (example_Token [] 100))"
    by (rule NewClient_initial_token)
  have tt: "NewClient_tt (Some (example_Token [] 100))
      = \<lparr>oauth2_AccessToken = ''access'', oauth2_RefreshToken = [], oauth2_Expiry = 100,
         oauth2_TokenType = ''bearer''\<rparr>"
    by (simp add: NewClient_tt_Some example_Token_def)
  show ?thesis
    by (simp add: seed src tt spec_fresh_def Client_Token_def TokenSource_Token_def Valid_iff
        example_oauth2_def)
qed

text \<open>
  C8. The source is chosen once, by \<open>NewClient\<close>: for a seed token that has a refresh
  token it is the refresh-token source, created with the seed, and the source of the
  client's HTTP transport is that same source. In every lifetime of the client (calls of
  \<open>Client.Token\<close> and \<open>Client.Do\<close> in any order, from any cached token and in any world)
  the client is at the end the client that was built, \<open>tokenSource\<close> included, and every
  exchange a call attempts is a refresh-token exchange, never a client-credentials one.
  A call that finds the cached token invalid and whose refresh exchange fails returns
  that error: \<open>Client.Token\<close> as it is, with no token, and \<open>Client.Do\<close> wrapped by
  \<open>http.Client.Do\<close>, with no response.
\<close>

theorem refresh_strategy_never_changes:
  assumes "RefreshToken tk \<noteq> []"
  shows "tokenSource (NewClient options (Some tk))
        = Config_TokenSource
            \<lparr>oc_ClientID = ClientID options, oc_ClientSecret = ClientSecret options,
             oc_AuthURL = AuthorizationEndpoint options, oc_TokenURL = TokenEndpoint options\<rparr>
            \<lparr>oauth2_AccessToken = AccessToken tk, oauth2_RefreshToken = RefreshToken tk,
             oauth2_Expiry = ExpiresIn tk, oauth2_TokenType = TokenType tk\<rparr>
    \<and> hc_Source (httpClient (NewClient options (Some tk)))
        = tokenSource (NewClient options (Some tk))
    \<and> snd (Client_calls lib (NewClient options (Some tk)) calls cached w)
        = NewClient options (Some tk)
    \<and> (\<forall>(r, gs) \<in> set (fst (Client_calls lib (NewClient options (Some tk)) calls cached w)).
          list_all is_refresh_grant gs)
    \<and> (\<not> Valid lib cached w \<and> oauth2_RefreshToken cached \<noteq> []
        \<and> retrieveToken lib
             (RefreshTokenGrant
                \<lparr>oc_ClientID = ClientID options, oc_ClientSecret = ClientSecret options,
                 oc_AuthURL = AuthorizationEndpoint options,
                 oc_TokenURL = TokenEndpoint options\<rparr>
                (oauth2_RefreshToken cached)) w
            = (Inl err, w')
        \<longrightarrow> Client_Token lib (NewClient options (Some tk)) cached w
              = ((None, Some err), cached,
                 [RefreshTokenGrant
                    \<lparr>oc_ClientID = ClientID options, oc_ClientSecret = ClientSecret options,
                     oc_AuthURL = AuthorizationEndpoint options,
                     oc_TokenURL = TokenEndpoint options\<rparr>
                    (oauth2_RefreshToken cached)], w')
          \<and> Client_Do (oauth2_Client_Do lib) (NewClient options (Some tk)) req cached w
              = (Inl (url_Error lib req err), cached,
                 [RefreshTokenGrant
                    \<lparr>oc_ClientID = ClientID options, oc_ClientSecret = ClientSecret options,
                     oc_AuthURL = AuthorizationEndpoint options,
                     oc_TokenURL = TokenEndpoint options\<rparr>
                    (oauth2_RefreshToken cached)], w'))"
proof -
  let ?c = "NewClient options (Some tk)"
  let ?cfg = "\<lparr>oc_ClientID = ClientID options, oc_ClientSecret = ClientSecret options,
      oc_AuthURL = AuthorizationEndpoint options, oc_TokenURL = TokenEndpoint options\<rparr>"
  have src: "tokenSource ?c = Config_TokenSource ?cfg (NewClient_tt (Some tk))"
    by (rule NewClient_refresh [OF assms])
  then have built: "tokenSource ?c = Config_TokenSource ?cfg
      \<lparr>oauth2_AccessToken = AccessToken tk, oauth2_RefreshToken = RefreshToken tk,
       oauth2_Expiry = ExpiresIn tk, oauth2_TokenType = TokenType tk\<rparr>"
    by (simp add: NewClient_tt_Some)
  have wired: "hc_Source (httpClient ?c) = tokenSource ?c"
    by (rule NewClient_transport_source)
  have kind: "is_refresh (tokenSource ?c)"
    by (simp add: src)
  note life = Client_calls_refresh [OF kind wired, of lib calls cached w]
  from life have kept: "snd (Client_calls lib ?c calls cached w) = ?c"
    by (rule conjunct1)
  from life have grants: "\<forall>(r, gs) \<in> set (fst (Client_calls lib ?c calls cached w)).
      list_all is_refresh_grant gs"
    by (simp add: list_all_iff)
  have failing: "\<not> Valid lib cached w \<and> oauth2_RefreshToken cached \<noteq> []
        \<and> retrieveToken lib (RefreshTokenGrant ?cfg (oauth2_RefreshToken cached)) w
            = (Inl err, w')
      \<longrightarrow> Client_Token lib ?c cached w
            = ((None, Some err), cached,
               [RefreshTokenGrant ?cfg (oauth2_RefreshToken cached)], w')
        \<and> Client_Do (oauth2_Client_Do lib) ?c req cached w
            = (Inl (url_Error lib req err), cached,
               [RefreshTokenGrant ?cfg (oauth2_RefreshToken cached)], w')"
  proof
    assume h: "\<not> Valid lib cached w \<and> oauth2_RefreshToken cached \<noteq> []
        \<and> retrieveToken lib (RefreshTokenGrant ?cfg (oauth2_RefreshToken cached)) w
            = (Inl err, w')"
    then have f: "TokenSource_Token lib (tokenSource ?c) cached w
        = (Inl err, cached, [RefreshTokenGrant ?cfg (oauth2_RefreshToken cached)], w')"
      unfolding src by (intro refresh_exchange_fails) simp_all
    show "Client_Token lib ?c cached w
            = ((None, Some err), cached,
               [RefreshTokenGrant ?cfg (oauth2_RefreshToken cached)], w')
        \<and> Client_Do (oauth2_Client_Do lib) ?c req cached w
            = (Inl (url_Error lib req err), cached,
               [RefreshTokenGrant ?cfg (oauth2_RefreshToken cached)], w')"
      by (simp add: Client_Token_def Client_Do_def oauth2_Client_Do_def wired f)
  qed
  from built wired kept grants failing show ?thesis by (intro conjI)
qed

theorem refresh_strategy_never_changes_witness:
  "RefreshToken (example_Token ''revoked'' 100) \<noteq> []
   \<and> snd (Client_calls example_oauth2
            (NewClient example_Options (Some (example_Token ''revoked'' 100)))
            [(\<lambda>n. n + 10, Token_call),
             (\<lambda>n. n + 200, Do_call \<lparr>req_Method = ''GET'', req_URL = ''https://sm.example.com/v1/info'',
                                    req_Header = [], req_Body = None\<rparr>),
             (\<lambda>n. n + 20, Token_call)]
            (NewClient_tt (Some (example_Token ''revoked'' 100))) 0)
     = NewClient example_Options (Some (example_Token ''revoked'' 100))
   \<and> list_all (\<lambda>(r, gs). list_all is_refresh_grant gs)
       (fst (Client_calls example_oauth2
          (NewClient example_Options (Some (example_Token ''revoked'' 100)))
          [(\<lambda>n. n + 10, Token_call),
           (\<lambda>n. n + 200, Do_call \<lparr>req_Method = ''GET'', req_URL = ''https://sm.example.com/v1/info'',
                                  req_Header = [], req_Body = None\<rparr>),
           (\<lambda>n. n + 20, Token_call)]
          (NewClient_tt (Some (example_Token ''revoked'' 100))) 0))
   \<and> fst (Client_Token example_oauth2
            (NewClient example_Options (Some (example_Token ''revoked'' 100)))
            (NewClient_tt (Some (example_Token ''revoked'' 100))) 300)
       = (None, Some (ErrorString ''invalid_grant''))
   \<and> fst (Client_Do (oauth2_Client_Do example_oauth2)
            (NewClient example_Options (Some (example_Token ''revoked'' 100)))
            \<lparr>req_Method = ''GET'', req_URL = ''https://sm.example.com/v1/info'',
             req_Header = [], req_Body = None\<rparr>
            (NewClient_tt (Some (example_Token ''revoked'' 100))) 300)
       = Inl (ErrorString ''GET https://sm.example.com/v1/info: invalid_grant'')"
proof -
  let ?tk = "example_Token ''revoked'' 100"
  let ?c = "NewClient example_Options (Some ?tk)"
  let ?cached = "NewClient_tt (Some ?tk)"
  let ?req = "\<lparr>req_Method = ''GET'', req_URL = ''https://sm.example.com/v1/info'',
      req_Header = [], req_Body = None\<rparr>"
  let ?calls = "[(\<lambda>n::nat. n + 10, Token_call), (\<lambda>n. n + 200, Do_call ?req),
      (\<lambda>n. n + 20, Token_call)]"
  let ?cfg = "\<lparr>oc_ClientID = ClientID example_Options,
      oc_ClientSecret = ClientSecret example_Options,
      oc_AuthURL = AuthorizationEndpoint example_Options,
      oc_TokenURL = TokenEndpoint example_Options\<rparr>"
  have r: "RefreshToken ?tk \<noteq> []"
    by (simp add: example_Token_def)
  note t0 = refresh_strategy_never_changes [OF r, where options = example_Options
      and lib = example_oauth2 and calls = ?calls and cached = ?cached and w = 0]
  note t = refresh_strategy_never_changes [OF r, where options = example_Options
      and lib = example_oauth2 and cached = ?cached and w = 300
      and err = "ErrorString ''invalid_grant''" and w' = 300 and req = ?req]
  have stale: "\<not> Valid example_oauth2 ?cached 300"
    by (simp add: Valid_iff example_oauth2_def NewClient_tt_Some example_Token_def)
  have has: "oauth2_RefreshToken ?cached \<noteq> []"
    by (simp add: NewClient_tt_Some example_Token_def)
  have fails: "retrieveToken example_oauth2
      (RefreshTokenGrant ?cfg (oauth2_RefreshToken ?cached)) 300
      = (Inl (ErrorString ''invalid_grant''), 300)"
    by (simp add: example_oauth2_def NewClient_tt_Some example_Token_def)
  from t0 have kept: "snd (Client_calls example_oauth2 ?c ?calls ?cached 0) = ?c"
    by blast
  from t0 have calls: "list_all (\<lambda>(r, gs). list_all is_refresh_grant gs)
       (fst (Client_calls example_oauth2 ?c ?calls ?cached 0))"
    by (simp add: list_all_iff)
  from t stale has fails have both: "Client_Token example_oauth2 ?c ?cached 300
      = ((None, Some (ErrorString ''invalid_grant'')), ?cached,
         [RefreshTokenGrant ?cfg (oauth2_RefreshToken ?cached)], 300)
    \<and> Client_Do (oauth2_Client_Do example_oauth2) ?c ?req ?cached 300
      = (Inl (url_Error example_oauth2 ?req (ErrorString ''invalid_grant'')), ?cached,
         [RefreshTokenGrant ?cfg (oauth2_RefreshToken ?cached)], 300)"
    by blast
  from both have one: "fst (Client_Token example_oauth2 ?c ?cached 300)
      = (None, Some (ErrorString ''invalid_grant''))"
    by simp
  have u: "url_Error example_oauth2 ?req (ErrorString ''invalid_grant'')
      = ErrorString ''GET https://sm.example.com/v1/info: invalid_grant''"
    by (simp add: example_oauth2_def)
  from both have two: "fst (Client_Do (oauth2_Client_Do example_oauth2) ?c ?req ?cached 300)
      = Inl (ErrorString ''GET https://sm.example.com/v1/info: invalid_grant'')"
    by (simp add: u)
  from r kept calls one two show ?thesis by (intro conjI)
qed

text \<open>
  C10. For every \<open>auth.Token\<close>: the client built from it by \<open>NewClient\<close> holds its copy
  as the initial token of the source, and when the source returns that token unchanged,
  \<open>Client.Token\<close> returns a token with the same access token, refresh token, expiry and
  token type, and no error.
\<close>

theorem token_round_trip:
  assumes "fst (TokenSource_Token lib (tokenSource (NewClient options (Some tk)))
                  (initial_token (tokenSource (NewClient options (Some tk)))) w)
           = Inr (initial_token (tokenSource (NewClient options (Some tk))))"
  shows "\<exists>tk'. fst (Client_Token lib (NewClient options (Some tk))
                      (initial_token (tokenSource (NewClient options (Some tk)))) w)
                 = (Some tk', None)
     \<and> AccessToken tk' = AccessToken tk \<and> RefreshToken tk' = RefreshToken tk
     \<and> ExpiresIn tk' = ExpiresIn tk \<and> TokenType tk' = TokenType tk"
proof -
  let ?c = "NewClient options (Some tk)"
  let ?seed = "initial_token (tokenSource ?c)"
  obtain cached' gs w' where
    step: "TokenSource_Token lib (tokenSource ?c) ?seed w = (Inr ?seed, cached', gs, w')"
    using assms by (metis fst_conv prod_cases4)
  have seed: "?seed = NewClient_tt (Some tk)"
    by (rule NewClient_initial_token)
  show ?thesis
    unfolding Client_Token_def step
    by (simp add: seed NewClient_tt_Some)
qed

theorem token_round_trip_witness:
  "fst (Client_Token example_oauth2 (NewClient example_Options (Some (example_Token ''r1'' 100)))
          (initial_token (tokenSource (NewClient example_Options (Some (example_Token ''r1'' 100)))))
          50)
   = (Some (example_Token ''r1'' 100), None)"
proof -
  let ?tk = "example_Token ''r1'' 100"
  let ?c = "NewClient example_Options (Some ?tk)"
  have h: "fst (TokenSource_Token example_oauth2 (tokenSource ?c) (initial_token (tokenSource ?c)) 50)
      = Inr (initial_token (tokenSource ?c))"
    by (simp add: TokenSource_Token_def NewClient_initial_token NewClient_tt_Some
        Valid_def expired_def expiryDelta_def example_oauth2_def example_Token_def)
  from token_round_trip [OF h] obtain tk' where
    res: "fst (Client_Token example_oauth2 ?c (initial_token (tokenSource ?c)) 50) = (Some tk', None)"
    and f: "AccessToken tk' = AccessToken ?tk" "RefreshToken tk' = RefreshToken ?tk"
      "ExpiresIn tk' = ExpiresIn ?tk" "TokenType tk' = TokenType ?tk"
    by blast
  from f have "tk' = ?tk" by simp
  with res show ?thesis by simp
qed

section \<open>Call and the operations built on it\<close>

lemma Call_answered:
  assumes "answered env client meth smpath body q w resp w'"
  shows "Call env client meth smpath body q w =
     (if resp_StatusCode resp < 200 \<or> resp_StatusCode resp > 299
      then (case UnmarshalResponse_map env resp of
              Inl err \<Rightarrow>
                ((Some resp,
                  Some (ResponseErr \<lparr>URL = fullURL env client smpath q,
                          StatusCode = resp_StatusCode resp,
                          ErrorMessage = [], Description = []\<rparr>)), w')
            | Inr respContent \<Rightarrow>
                ((None,
                  Some (ResponseErr (copy_error_fields respContent
                          \<lparr>URL = fullURL env client smpath q,
                           StatusCode = resp_StatusCode resp,
                           ErrorMessage = [], Description = []\<rparr>))), w'))
      else ((Some resp, None), w'))"
  using assms
  by (simp add: Call_def answered_def Call_request_def NewRequest_def Let_def)

lemma copy_error_fields_frame:
  "URL (copy_error_fields m e) = URL e"
  "StatusCode (copy_error_fields m e) = StatusCode e"
  by (simp_all add: copy_error_fields_def Let_def split: option.splits json.splits)

lemma copy_error_fields_both:
  "m ''error'' = Some (JString e) \<Longrightarrow> m ''description'' = Some (JString d) \<Longrightarrow>
   copy_error_fields m r = r\<lparr>ErrorMessage := e, Description := d\<rparr>"
  by (simp add: copy_error_fields_def)

lemma example_fullURL:
  "fullURL example_env (example_client status body) ''/v1/platforms'' None
     = ''https://sm.example.com/v1/platforms''"
  by (simp add: fullURL_def buildURL_def example_env_def example_client_def example_config_def)

lemma example_answered:
  "meth \<noteq> [] \<Longrightarrow>
   answered example_env (example_client status body) meth smpath b q n
     \<lparr>resp_StatusCode = status, resp_Body = body\<rparr> (Suc n)"
  by (simp add: answered_def example_env_def example_client_def example_Do_def)

lemma Call_answered_cases:
  assumes "answered env client meth smpath body q w resp w'"
  shows "(200 \<le> resp_StatusCode resp \<and> resp_StatusCode resp \<le> 299
            \<and> Call env client meth smpath body q w = ((Some resp, None), w'))
       \<or> ((resp_StatusCode resp < 200 \<or> resp_StatusCode resp > 299)
            \<and> (\<exists>r e. Call env client meth smpath body q w = ((r, Some (ResponseErr e)), w')
                  \<and> StatusCode e = resp_StatusCode resp
                  \<and> URL e = fullURL env client smpath q))"
  by (auto simp: Call_answered [OF assms] copy_error_fields_frame split: sum.splits)

lemma register_answered:
  assumes "marshal resource = Inr b"
    and "answered env client ''POST'' url (Some b) q w resp w'"
  shows "if resp_StatusCode resp = 201
         then register env client marshal unmarshal resource url q result w
                = (Return (unmarshal resp result), w')
         else \<exists>e. register env client marshal unmarshal resource url q result w
                = (Return (result, Some (ResponseErr e)), w')
              \<and> StatusCode e = resp_StatusCode resp"
  using Call_answered_cases [OF assms(2)] assms(1)
  by (auto simp: register_def StatusCodeError_def split: option.splits)

lemma list_answered:
  assumes "answered env client ''GET'' url None q w resp w'"
  shows "if resp_StatusCode resp = 200
         then list env client unmarshal result url q w = (Return (unmarshal resp result), w')
         else \<exists>e. list env client unmarshal result url q w
                = (Return (result, Some (ResponseErr e)), w')
              \<and> StatusCode e = resp_StatusCode resp"
  using Call_answered_cases [OF assms]
  by (auto simp: list_def StatusCodeError_def split: option.splits)

lemma update_answered:
  assumes "marshal resource = Inr b"
    and "answered env client ''PATCH'' (url @ ''/'' @ ident) (Some b) q w resp w'"
  shows "if resp_StatusCode resp = 200
         then update env client marshal unmarshal resource url ident q result w
                = (Return (unmarshal resp result), w')
         else \<exists>e. update env client marshal unmarshal resource url ident q result w
                = (Return (result, Some (ResponseErr e)), w')
              \<and> StatusCode e = resp_StatusCode resp"
  using Call_answered_cases [OF assms(2)] assms(1)
  by (auto simp: update_def StatusCodeError_def split: option.splits)

lemma delete_answered:
  assumes "answered env client ''DELETE'' url None q w resp w'"
  shows "if resp_StatusCode resp = 200
         then delete env client url q w = (Return None, w')
         else \<exists>e. delete env client url q w = (Return (Some (ResponseErr e)), w')
              \<and> StatusCode e = resp_StatusCode resp"
  using Call_answered_cases [OF assms]
  by (auto simp: delete_def StatusCodeError_def split: option.splits)

lemma Call_not_nil_nil:
  "fst (Call env client meth smpath body q w) \<noteq> (None, None)"
  by (simp add: Call_def Let_def split: sum.splits prod.splits)

lemma list_returns:
  "\<exists>r e w'. list env client unmarshal result url q w = (Return (r, e), w')"
proof -
  obtain r e w' where c: "Call env client ''GET'' url None q w = ((r, e), w')"
    by (metis surj_pair)
  with Call_not_nil_nil [of env client "''GET''" url None q w] have "(r, e) \<noteq> (None, None)"
    by simp
  with c show ?thesis
    by (cases r; cases e) (simp_all add: list_def)
qed

lemma fetchOpenidConfiguration_not_200:
  assumes "request_error ''GET'' (issuerURL @ ''/.well-known/openid-configuration'') = None"
    and "readConfigurationFunc (discovery_request issuerURL) w = (Inr response, w')"
    and "resp_StatusCode response \<noteq> 200"
  shows "fetchOpenidConfiguration request_error unmarshal issuerURL readConfigurationFunc w
           = ((None, Some (ErrorString ''unexpected status code'')), w')"
  using assms
  by (simp add: fetchOpenidConfiguration_def NewRequest_def discovery_request_def)

text \<open>
  C3. For every response with a status outside 200 to 299: when its body decodes to a
  JSON object whose \<open>error\<close> and \<open>description\<close> fields are strings, the error \<open>Call\<close>
  returns is a \<open>ResponseError\<close> with the request URL, the status code and exactly those
  two strings; when its body cannot be decoded, the error \<open>Call\<close> returns is still a
  \<open>ResponseError\<close> with the request URL and the status code, and not the decoding error.
\<close>

theorem Call_error_body:
  assumes "answered env client meth smpath body q w resp w'"
    and "resp_StatusCode resp < 200 \<or> resp_StatusCode resp > 299"
  shows "(UnmarshalResponse_map env resp = Inr m \<and> m ''error'' = Some (JString e)
            \<and> m ''description'' = Some (JString d)
          \<longrightarrow> Call env client meth smpath body q w
              = ((None, Some (ResponseErr \<lparr>URL = fullURL env client smpath q,
                                StatusCode = resp_StatusCode resp,
                                ErrorMessage = e, Description = d\<rparr>)), w'))
       \<and> (UnmarshalResponse_map env resp = Inl derr
          \<longrightarrow> snd (fst (Call env client meth smpath body q w))
              = Some (ResponseErr \<lparr>URL = fullURL env client smpath q,
                        StatusCode = resp_StatusCode resp,
                        ErrorMessage = [], Description = []\<rparr>))"
  using assms(2) by (simp add: Call_answered [OF assms(1)] copy_error_fields_both)

theorem Call_error_body_witness:
  "Call example_env (example_client 401 ''{error:invalid_token,description:expired}'')
       ''GET'' ''/v1/platforms'' None None 0
     = ((None, Some (ResponseErr \<lparr>URL = ''https://sm.example.com/v1/platforms'',
                       StatusCode = 401, ErrorMessage = ''invalid_token'',
                       Description = ''expired''\<rparr>)), 1)
   \<and> snd (fst (Call example_env (example_client 502 ''garbage'')
                 ''GET'' ''/v1/platforms'' None None 0))
     = Some (ResponseErr \<lparr>URL = ''https://sm.example.com/v1/platforms'',
               StatusCode = 502, ErrorMessage = [], Description = []\<rparr>)"
proof -
  let ?b = "''{error:invalid_token,description:expired}''"
  let ?m = "[''error'' \<mapsto> JString ''invalid_token'', ''description'' \<mapsto> JString ''expired'']"
  have a1: "answered example_env (example_client 401 ?b) ''GET'' ''/v1/platforms'' None None 0
      \<lparr>resp_StatusCode = 401, resp_Body = ?b\<rparr> (Suc 0)"
    by (rule example_answered) simp
  have s1: "resp_StatusCode \<lparr>resp_StatusCode = 401, resp_Body = ?b\<rparr> < 200
      \<or> resp_StatusCode \<lparr>resp_StatusCode = 401, resp_Body = ?b\<rparr> > 299"
    by simp
  have d1: "UnmarshalResponse_map example_env \<lparr>resp_StatusCode = 401, resp_Body = ?b\<rparr> = Inr ?m
      \<and> ?m ''error'' = Some (JString ''invalid_token'')
      \<and> ?m ''description'' = Some (JString ''expired'')"
    by (simp add: example_env_def)
  have a2: "answered example_env (example_client 502 ''garbage'') ''GET'' ''/v1/platforms'' None
      None 0 \<lparr>resp_StatusCode = 502, resp_Body = ''garbage''\<rparr> (Suc 0)"
    by (rule example_answered) simp
  have s2: "resp_StatusCode \<lparr>resp_StatusCode = 502, resp_Body = ''garbage''\<rparr> < 200
      \<or> resp_StatusCode \<lparr>resp_StatusCode = 502, resp_Body = ''garbage''\<rparr> > 299"
    by simp
  have d2: "UnmarshalResponse_map example_env \<lparr>resp_StatusCode = 502, resp_Body = ''garbage''\<rparr>
      = Inl (ErrorString ''invalid character'')"
    by (simp add: example_env_def)
  from Call_error_body [OF a1 s1, where m = ?m and e = "''invalid_token''" and d = "''expired''"] d1
  have c1: "Call example_env (example_client 401 ?b) ''GET'' ''/v1/platforms'' None None 0
     = ((None, Some (ResponseErr \<lparr>URL = ''https://sm.example.com/v1/platforms'',
                       StatusCode = 401, ErrorMessage = ''invalid_token'',
                       Description = ''expired''\<rparr>)), 1)"
    by (simp add: example_fullURL)
  from Call_error_body [OF a2 s2, where derr = "ErrorString ''invalid character''"] d2
  have c2: "snd (fst (Call example_env (example_client 502 ''garbage'')
                 ''GET'' ''/v1/platforms'' None None 0))
     = Some (ResponseErr \<lparr>URL = ''https://sm.example.com/v1/platforms'',
               StatusCode = 502, ErrorMessage = [], Description = []\<rparr>)"
    by (simp add: example_fullURL)
  from c1 c2 show ?thesis by (intro conjI)
qed

text \<open>
  C5. \<open>Call\<close> on a response with status 502 whose body cannot be decoded: the result pair
  holds the response and a \<open>ResponseError\<close>, both set (line 369 returns \<open>resp, respErr\<close>,
  where every other error return of \<open>Call\<close> returns a nil response).
\<close>

theorem Call_response_with_error:
  "Call example_env (example_client 502 ''garbage'') ''GET'' ''/v1/platforms'' None None 0
     = ((Some \<lparr>resp_StatusCode = 502, resp_Body = ''garbage''\<rparr>,
         Some (ResponseErr \<lparr>URL = ''https://sm.example.com/v1/platforms'',
                 StatusCode = 502, ErrorMessage = [], Description = []\<rparr>)), 1)"
proof -
  have a: "answered example_env (example_client 502 ''garbage'') ''GET'' ''/v1/platforms'' None
      None 0 \<lparr>resp_StatusCode = 502, resp_Body = ''garbage''\<rparr> (Suc 0)"
    by (rule example_answered) simp
  have d: "UnmarshalResponse_map example_env \<lparr>resp_StatusCode = 502, resp_Body = ''garbage''\<rparr>
      = Inl (ErrorString ''invalid character'')"
    by (simp add: example_env_def)
  show ?thesis
    by (simp add: Call_answered [OF a] example_fullURL d)
qed

text \<open>
  C2, as the code has it. Each operation has one success status of its own: 201 for
  \<open>register\<close>, 200 for \<open>list\<close>, \<open>update\<close> and \<open>delete\<close>. For every response to its
  request: on that status \<open>register\<close>, \<open>list\<close> and \<open>update\<close> return what decoding the
  body gives (the decoded value and no error when the body has the expected shape), and
  \<open>delete\<close> returns no error; on any other status the operation leaves the result as it
  was and returns a \<open>ResponseError\<close> carrying that status code.
\<close>

theorem operations_status_mapping:
  "(marshal resource = Inr b \<and> answered env client ''POST'' url (Some b) q w resp w'
      \<longrightarrow> (if resp_StatusCode resp = 201
           then register env client marshal unmarshal resource url q result w
                  = (Return (unmarshal resp result), w')
           else \<exists>e. register env client marshal unmarshal resource url q result w
                  = (Return (result, Some (ResponseErr e)), w')
                \<and> StatusCode e = resp_StatusCode resp))
   \<and> (answered env client ''GET'' url None q w resp w'
      \<longrightarrow> (if resp_StatusCode resp = 200
           then list env client unmarshal result url q w = (Return (unmarshal resp result), w')
           else \<exists>e. list env client unmarshal result url q w
                  = (Return (result, Some (ResponseErr e)), w')
                \<and> StatusCode e = resp_StatusCode resp))
   \<and> (marshal resource = Inr b
        \<and> answered env client ''PATCH'' (url @ ''/'' @ ident) (Some b) q w resp w'
      \<longrightarrow> (if resp_StatusCode resp = 200
           then update env client marshal unmarshal resource url ident q result w
                  = (Return (unmarshal resp result), w')
           else \<exists>e. update env client marshal unmarshal resource url ident q result w
                  = (Return (result, Some (ResponseErr e)), w')
                \<and> StatusCode e = resp_StatusCode resp))
   \<and> (answered env client ''DELETE'' url None q w resp w'
      \<longrightarrow> (if resp_StatusCode resp = 200
           then delete env client url q w = (Return None, w')
           else \<exists>e. delete env client url q w = (Return (Some (ResponseErr e)), w')
                \<and> StatusCode e = resp_StatusCode resp))"
proof (intro conjI impI)
  assume h: "marshal resource = Inr b \<and> answered env client ''POST'' url (Some b) q w resp w'"
  show "if resp_StatusCode resp = 201
      then register env client marshal unmarshal resource url q result w
             = (Return (unmarshal resp result), w')
      else \<exists>e. register env client marshal unmarshal resource url q result w
             = (Return (result, Some (ResponseErr e)), w')
           \<and> StatusCode e = resp_StatusCode resp"
    by (rule register_answered [where marshal = marshal and resource = resource,
        OF conjunct1 [OF h] conjunct2 [OF h]])
next
  assume "answered env client ''GET'' url None q w resp w'"
  then show "if resp_StatusCode resp = 200
      then list env client unmarshal result url q w = (Return (unmarshal resp result), w')
      else \<exists>e. list env client unmarshal result url q w
             = (Return (result, Some (ResponseErr e)), w')
           \<and> StatusCode e = resp_StatusCode resp"
    by (rule list_answered)
next
  assume h: "marshal resource = Inr b
    \<and> answered env client ''PATCH'' (url @ ''/'' @ ident) (Some b) q w resp w'"
  show "if resp_StatusCode resp = 200
      then update env client marshal unmarshal resource url ident q result w
             = (Return (unmarshal resp result), w')
      else \<exists>e. update env client marshal unmarshal resource url ident q result w
             = (Return (result, Some (ResponseErr e)), w')
           \<and> StatusCode e = resp_StatusCode resp"
    by (rule update_answered [where marshal = marshal and resource = resource,
        OF conjunct1 [OF h] conjunct2 [OF h]])
next
  assume "answered env client ''DELETE'' url None q w resp w'"
  then show "if resp_StatusCode resp = 200
      then delete env client url q w = (Return None, w')
      else \<exists>e. delete env client url q w = (Return (Some (ResponseErr e)), w')
           \<and> StatusCode e = resp_StatusCode resp"
    by (rule delete_answered)
qed

theorem operations_status_mapping_witness:
  "register example_env (example_client 201 ''p1'') example_marshal example_unmarshal ''p1''
       ''/v1/platforms'' None None 0
     = (Return (Some ''p1'', None), 1)
   \<and> (\<exists>e. list example_env (example_client 201 ''p1'') example_unmarshal None
              ''/v1/platforms'' None 0
            = (Return (None, Some (ResponseErr e)), 1) \<and> StatusCode e = 201)
   \<and> (\<exists>e. update example_env (example_client 201 ''p1'') example_marshal example_unmarshal
              ''p1'' ''/v1/platforms'' ''id1'' None None 0
            = (Return (None, Some (ResponseErr e)), 1) \<and> StatusCode e = 201)
   \<and> (\<exists>e. delete example_env (example_client 201 ''p1'') ''/v1/platforms'' None 0
            = (Return (Some (ResponseErr e)), 1) \<and> StatusCode e = 201)"
proof -
  let ?resp = "\<lparr>resp_StatusCode = 201, resp_Body = ''p1''\<rparr>"
  have m: "example_marshal ''p1'' = Inr ''p1''"
    by (simp add: example_marshal_def)
  have a: "\<And>meth smpath b. meth \<noteq> [] \<Longrightarrow>
      answered example_env (example_client 201 ''p1'') meth smpath b None 0 ?resp (Suc 0)"
    by (rule example_answered)
  note t = operations_status_mapping [where marshal = example_marshal and resource = "''p1''"
      and b = "''p1''" and env = example_env and client = "example_client 201 ''p1''"
      and url = "''/v1/platforms''" and ident = "''id1''" and q = None and w = 0
      and resp = ?resp and w' = "Suc 0" and unmarshal = example_unmarshal and result = None]
  have s: "resp_StatusCode ?resp = 201" "resp_StatusCode ?resp \<noteq> 200"
    by simp_all
  have u: "example_unmarshal ?resp None = (Some ''p1'', None)"
    by (simp add: example_unmarshal_def)
  from t m a [of "''POST''"] have c1: "register example_env (example_client 201 ''p1'')
      example_marshal example_unmarshal ''p1'' ''/v1/platforms'' None None 0
     = (Return (Some ''p1'', None), 1)"
    by (simp add: u)
  from t a [of "''GET''"] have c2: "\<exists>e. list example_env (example_client 201 ''p1'')
      example_unmarshal None ''/v1/platforms'' None 0
        = (Return (None, Some (ResponseErr e)), 1) \<and> StatusCode e = 201"
    by simp
  from t m a [of "''PATCH''"] have c3: "\<exists>e. update example_env (example_client 201 ''p1'')
      example_marshal example_unmarshal ''p1'' ''/v1/platforms'' ''id1'' None None 0
        = (Return (None, Some (ResponseErr e)), 1) \<and> StatusCode e = 201"
    by simp
  from t a [of "''DELETE''"] have c4: "\<exists>e. delete example_env (example_client 201 ''p1'')
      ''/v1/platforms'' None 0 = (Return (Some (ResponseErr e)), 1) \<and> StatusCode e = 201"
    by simp
  from c1 c2 c3 c4 show ?thesis by (intro conjI)
qed

text \<open>
  C2 as stated fails for \<open>register\<close> on status 200: the body decodes, and the operation
  returns no value and a \<open>ResponseError\<close> with status 200.
\<close>

theorem register_status_200_counterexample:
  "example_unmarshal \<lparr>resp_StatusCode = 200, resp_Body = ''p1''\<rparr> None = (Some ''p1'', None)
   \<and> register example_env (example_client 200 ''p1'') example_marshal example_unmarshal ''p1''
        ''/v1/platforms'' None None 0
      = (Return (None, Some (ResponseErr \<lparr>URL = [], StatusCode = 200, ErrorMessage = [],
                                         Description = []\<rparr>)), 1)"
proof -
  have a: "answered example_env (example_client 200 ''p1'') ''POST'' ''/v1/platforms''
      (Some ''p1'') None 0 \<lparr>resp_StatusCode = 200, resp_Body = ''p1''\<rparr> (Suc 0)"
    by (rule example_answered) simp
  show ?thesis
    by (simp add: example_unmarshal_def register_def example_marshal_def Call_answered [OF a]
        StatusCodeError_def)
qed

text \<open>
  C4. \<open>RegisterPlatform\<close> answered with status 200: the request went to
  \<open>https://sm.example.com/v1/platforms\<close>, and the \<open>ResponseError\<close> it returns carries
  the status code with an empty URL (line 172 builds it from the status code alone, where
  \<open>Call\<close> fills in the URL too).
\<close>

theorem RegisterPlatform_error_has_no_URL:
  "fullURL example_env (example_client 200 ''p1'') (web_PlatformsURL example_env) None
     = ''https://sm.example.com/v1/platforms''
   \<and> RegisterPlatform example_env (example_client 200 ''p1'') example_marshal example_unmarshal
        ''p1'' None 0
      = (Return (None, Some (ResponseErr \<lparr>URL = [], StatusCode = 200, ErrorMessage = [],
                                         Description = []\<rparr>)), 1)"
proof -
  have p: "web_PlatformsURL example_env = ''/v1/platforms''"
    by (simp add: example_env_def)
  have a: "answered example_env (example_client 200 ''p1'') ''POST'' ''/v1/platforms''
      (Some ''p1'') None 0 \<lparr>resp_StatusCode = 200, resp_Body = ''p1''\<rparr> (Suc 0)"
    by (rule example_answered) simp
  show ?thesis
    by (simp add: p example_fullURL RegisterPlatform_def register_def example_marshal_def
        Call_answered [OF a] StatusCodeError_def)
qed

text \<open>
  C9. \<open>ListOfferings\<close> with nil query parameters: whenever the first \<open>list\<close> call
  succeeds with a non-empty list of offerings, the first round of the loop reads
  \<open>q.GeneralParams\<close> of the nil \<open>q\<close> and the call panics. \<open>ListPlatforms\<close>,
  \<open>ListBrokers\<close> and \<open>ListVisibilities\<close> with nil parameters never panic (\<open>Encode\<close>, the
  only reader of their \<open>q\<close>, takes the nil pointer).
\<close>

theorem ListOfferings_nil_parameters:
  assumes "list env client unmarshal_offerings \<lparr>ServiceOfferings = []\<rparr>
             (web_ServiceOfferingsURL env) None w = (Return (offerings, None), w')"
    and "ServiceOfferings offerings \<noteq> []"
  shows "ListOfferings env client unmarshal_offerings unmarshal_plans unmarshal_broker None w
           = (Panic, w')
     \<and> fst (ListPlatforms env client unmarshal_platforms no_platforms None w1) \<noteq> Panic
     \<and> fst (ListBrokers env client unmarshal_brokers no_brokers None w2) \<noteq> Panic
     \<and> fst (ListVisibilities env client unmarshal_visibilities no_visibilities None w3) \<noteq> Panic"
proof -
  from assms(2) obtain so rest where sos: "ServiceOfferings offerings = so # rest"
    by (cases "ServiceOfferings offerings") simp_all
  have offerings: "ListOfferings env client unmarshal_offerings unmarshal_plans unmarshal_broker
      None w = (Panic, w')"
    by (simp add: ListOfferings_def assms(1) sos)
  have platforms: "fst (ListPlatforms env client unmarshal_platforms no_platforms None w1) \<noteq> Panic"
    using list_returns [of env client unmarshal_platforms no_platforms "web_PlatformsURL env" None w1]
    by (auto simp: ListPlatforms_def)
  have brokers: "fst (ListBrokers env client unmarshal_brokers no_brokers None w2) \<noteq> Panic"
    using list_returns [of env client unmarshal_brokers no_brokers "web_ServiceBrokersURL env" None w2]
    by (auto simp: ListBrokers_def)
  have visibilities:
    "fst (ListVisibilities env client unmarshal_visibilities no_visibilities None w3) \<noteq> Panic"
    using list_returns [of env client unmarshal_visibilities no_visibilities
        "web_VisibilitiesURL env" None w3]
    by (auto simp: ListVisibilities_def)
  from offerings platforms brokers visibilities show ?thesis by (intro conjI)
qed

theorem ListOfferings_nil_parameters_witness:
  "ListOfferings example_env (example_client 200 ''{}'') example_unmarshal_offerings
       (\<lambda>resp v. (v, None)) (\<lambda>resp v. (v, None)) None 0
     = (Panic, 1)
   \<and> ListPlatforms example_env (example_client 200 ''p1'') example_unmarshal None None 0
     = (Return (Some (Some ''p1''), None), 1)"
proof -
  let ?client = "example_client 200 ''{}''"
  let ?os = "\<lparr>ServiceOfferings = [\<lparr>ID = ''o1'', BrokerID = ''b1'', Plans = [],
      BrokerName = []\<rparr>]\<rparr> :: unit ServiceOfferings"
  have a: "answered example_env ?client ''GET'' (web_ServiceOfferingsURL example_env) None None 0
      \<lparr>resp_StatusCode = 200, resp_Body = ''{}''\<rparr> (Suc 0)"
    by (rule example_answered) simp
  have l: "list example_env ?client example_unmarshal_offerings \<lparr>ServiceOfferings = []\<rparr>
      (web_ServiceOfferingsURL example_env) None 0 = (Return (?os, None), 1)"
    using list_answered [OF a, of example_unmarshal_offerings "\<lparr>ServiceOfferings = []\<rparr>"]
    by (simp add: example_unmarshal_offerings_def)
  have ne: "ServiceOfferings ?os \<noteq> []"
    by simp
  note t = ListOfferings_nil_parameters [OF l ne]
  from t have c1: "ListOfferings example_env ?client example_unmarshal_offerings
       (\<lambda>resp v. (v, None)) (\<lambda>resp v. (v, None)) None 0 = (Panic, 1)"
    by (rule conjunct1)
  have a2: "answered example_env (example_client 200 ''p1'') ''GET''
      (web_PlatformsURL example_env) None None 0
      \<lparr>resp_StatusCode = 200, resp_Body = ''p1''\<rparr> (Suc 0)"
    by (rule example_answered) simp
  have c2: "ListPlatforms example_env (example_client 200 ''p1'') example_unmarshal None None 0
     = (Return (Some (Some ''p1''), None), 1)"
    using list_answered [OF a2, of example_unmarshal None]
    by (simp add: ListPlatforms_def example_unmarshal_def)
  from c1 c2 show ?thesis by (intro conjI)
qed

text \<open>
  C6. When the response to the discovery request has a status other than 200,
  \<open>fetchOpenidConfiguration\<close> returns no configuration and the error
  \<open>unexpected status code\<close>; and \<open>NewClientWithAuth\<close>, whose discovery request it is
  (sent for the issuer of the info it fetched, with the request check and the transport
  of its collaborators), returns no client and an error.
\<close>

theorem discovery_not_200_fails_construction:
  assumes "request_error ''GET'' (issuerURL @ ''/.well-known/openid-configuration'') = None"
    and "readConfigurationFunc (discovery_request issuerURL) w = (Inr response, w')"
    and "resp_StatusCode response \<noteq> 200"
  shows "fetchOpenidConfiguration request_error unmarshal issuerURL readConfigurationFunc w
           = ((None, Some (ErrorString ''unexpected status code'')), w')
     \<and> (GetInfo env
            \<lparr>sm_config = config,
             sm_httpClient = (case httpClient0 of None \<Rightarrow> http_DefaultClient co | Some h \<Rightarrow> h)\<rparr>
            (unmarshal_Info co) (DefaultInfo co) None w0 = (Return (Some info, None), w)
          \<and> issuerURL = TokenIssuerURL info
          \<and> request_error = NewRequest_error env
          \<and> readConfigurationFunc = BuildHTTPClient co (cfg_SSLDisabled config)
        \<longrightarrow> (\<exists>err. NewClientWithAuth env co httpClient0 config w0
                    = (Return (None, Some err), w')))"
proof (intro conjI impI)
  show "fetchOpenidConfiguration request_error unmarshal issuerURL readConfigurationFunc w
      = ((None, Some (ErrorString ''unexpected status code'')), w')"
    using assms
    by (rule fetchOpenidConfiguration_not_200 [where request_error = request_error
          and readConfigurationFunc = readConfigurationFunc])
next
  assume h: "GetInfo env
      \<lparr>sm_config = config,
       sm_httpClient = (case httpClient0 of None \<Rightarrow> http_DefaultClient co | Some h \<Rightarrow> h)\<rparr>
      (unmarshal_Info co) (DefaultInfo co) None w0 = (Return (Some info, None), w)
    \<and> issuerURL = TokenIssuerURL info
    \<and> request_error = NewRequest_error env
    \<and> readConfigurationFunc = BuildHTTPClient co (cfg_SSLDisabled config)"
  have f: "fetchOpenidConfiguration (NewRequest_error env) (unmarshal_openIDConfiguration co)
      (TokenIssuerURL info) (BuildHTTPClient co (cfg_SSLDisabled config)) w
      = ((None, Some (ErrorString ''unexpected status code'')), w')"
    using fetchOpenidConfiguration_not_200 [where request_error = request_error
        and readConfigurationFunc = readConfigurationFunc
        and unmarshal = "unmarshal_openIDConfiguration co", OF assms] h
    by simp
  from h have g: "GetInfo env
      \<lparr>sm_config = config,
       sm_httpClient = (case httpClient0 of None \<Rightarrow> http_DefaultClient co | Some h \<Rightarrow> h)\<rparr>
      (unmarshal_Info co) (DefaultInfo co) None w0 = (Return (Some info, None), w)"
    by simp
  show "\<exists>err. NewClientWithAuth env co httpClient0 config w0 = (Return (None, Some err), w')"
    by (simp add: NewClientWithAuth_def Let_def g NewOpenIDStrategy_def f)
qed

theorem discovery_not_200_fails_construction_witness:
  "fetchOpenidConfiguration (NewRequest_error example_env)
       (unmarshal_openIDConfiguration (example_collaborators 404)) ''https://uaa.example.com''
       (BuildHTTPClient (example_collaborators 404) (cfg_SSLDisabled example_config)) 1
     = ((None, Some (ErrorString ''unexpected status code'')), 2)
   \<and> (\<exists>err. NewClientWithAuth example_env (example_collaborators 404) None example_config 0
              = (Return (None, Some err), 2))"
proof -
  let ?co = "example_collaborators 404"
  let ?issuer = "''https://uaa.example.com''"
  let ?info = "\<lparr>TokenIssuerURL = ?issuer\<rparr>"
  let ?client = "\<lparr>sm_config = example_config,
      sm_httpClient = (case None of None \<Rightarrow> http_DefaultClient ?co | Some h \<Rightarrow> h)\<rparr>"
  have r: "NewRequest_error example_env ''GET'' (?issuer @ ''/.well-known/openid-configuration'')
      = None"
    by (simp add: example_env_def)
  have d: "BuildHTTPClient ?co (cfg_SSLDisabled example_config) (discovery_request ?issuer) 1
      = (Inr \<lparr>resp_StatusCode = 404, resp_Body = ''{}''\<rparr>, 2)"
    by (simp add: example_collaborators_def example_Do_def)
  have s: "resp_StatusCode \<lparr>resp_StatusCode = 404, resp_Body = ''{}''\<rparr> \<noteq> 200"
    by simp
  have c: "?client = example_client 200 ''{}''"
    by (simp add: example_client_def example_collaborators_def)
  have a: "answered example_env (example_client 200 ''{}'') ''GET'' (web_InfoURL example_env)
      None None 0 \<lparr>resp_StatusCode = 200, resp_Body = ''{}''\<rparr> (Suc 0)"
    by (rule example_answered) simp
  have g: "GetInfo example_env ?client (unmarshal_Info ?co) (DefaultInfo ?co) None 0
      = (Return (Some ?info, None), 1)"
    unfolding c
    by (simp add: GetInfo_def Call_answered [OF a]) (simp add: example_collaborators_def)
  note t = discovery_not_200_fails_construction [where request_error = "NewRequest_error example_env"
      and readConfigurationFunc = "BuildHTTPClient ?co (cfg_SSLDisabled example_config)"
      and unmarshal = "unmarshal_openIDConfiguration ?co" and env = example_env and co = ?co
      and ?httpClient0.0 = None and config = example_config and ?w0.0 = 0 and info = ?info,
      OF r d s]
  from t have c1: "fetchOpenidConfiguration (NewRequest_error example_env)
       (unmarshal_openIDConfiguration ?co) ?issuer
       (BuildHTTPClient ?co (cfg_SSLDisabled example_config)) 1
     = ((None, Some (ErrorString ''unexpected status code'')), 2)"
    by (rule conjunct1)
  from t g have c2: "\<exists>err. NewClientWithAuth example_env ?co None example_config 0
      = (Return (None, Some err), 2)"
    by simp
  from c1 c2 show ?thesis by (intro conjI)
qed

end
